theory Spec2Isabelle
  imports Main "HOL-Library.Word"
begin

section \<open>JavaScript strings\<close>

text \<open>
  A JavaScript string is a sequence of 16-bit code units. \<open>U\<close> embeds an 8-bit literal,
  \<open>CH\<close> a single character.
\<close>

type_synonym jschar = "16 word"
type_synonym jsstring = "jschar list"

definition CH :: "char \<Rightarrow> jschar" where
  "CH c = of_nat (of_char c)"

definition U :: "string \<Rightarrow> jsstring" where
  "U s = map CH s"

definition digit :: "nat \<Rightarrow> jschar" where
  "digit d = of_nat (48 + d mod 10)"

text \<open>Decimal text of a natural number, zero-padded to a fixed width (the low digits).\<close>

primrec pad :: "nat \<Rightarrow> nat \<Rightarrow> jsstring" where
  "pad 0 n = []"
| "pad (Suc k) n = pad k (n div 10) @ [digit n]"

definition pad2 :: "nat \<Rightarrow> jsstring" where
  "pad2 n = pad (Suc (Suc 0)) n"

definition pad3 :: "nat \<Rightarrow> jsstring" where
  "pad3 n = pad (Suc (Suc (Suc 0))) n"

definition pad4 :: "nat \<Rightarrow> jsstring" where
  "pad4 n = pad (Suc (Suc (Suc (Suc 0)))) n"

definition pad6 :: "nat \<Rightarrow> jsstring" where
  "pad6 n = pad (Suc (Suc (Suc (Suc (Suc (Suc 0)))))) n"

text \<open>\<open>String.prototype.split\<close> with a one-character separator: never the empty array.\<close>

fun split :: "jschar \<Rightarrow> jsstring \<Rightarrow> jsstring list" where
  "split sep [] = [[]]"
| "split sep (c # cs) =
     (if c = sep then [] # split sep cs
      else (case split sep cs of
              p # ps \<Rightarrow> (c # p) # ps
            | [] \<Rightarrow> [[c]]))"

section \<open>The clock: \<open>new Date().toISOString()\<close>\<close>

text \<open>
  A time value is the number of milliseconds since 1970-01-01T00:00:00Z; \<open>new Date()\<close>
  reads the clock, so the time value is a parameter \<open>now\<close> of every operation (the
  clock's value is always a valid time value, so \<open>toISOString\<close> does not throw). The
  calendar date of a day number is the proleptic Gregorian one, as ECMAScript's
  \<open>YearFromTime\<close>, \<open>MonthFromTime\<close> and \<open>DateFromTime\<close> give it (month 1 to 12 here).
\<close>

definition msPerDay :: int where
  "msPerDay = 86400000"

definition civil :: "int \<Rightarrow> int \<times> int \<times> int" where
  "civil d =
     (let z = d + 719468;
          era = z div 146097;
          doe = z mod 146097;
          yoe = (doe - doe div 1460 + doe div 36524 - doe div 146096) div 365;
          doy = doe - (365 * yoe + yoe div 4 - yoe div 100);
          mp = (5 * doy + 2) div 153;
          dd = doy - (153 * mp + 2) div 5 + 1;
          m = (if mp < 10 then mp + 3 else mp - 9);
          y = yoe + era * 400 + (if m \<le> 2 then 1 else 0)
      in (y, m, dd))"

text \<open>
  \<open>Date.prototype.toISOString\<close>: always UTC. Years 0 to 9999 print with four digits,
  the others with a sign and six.
\<close>

definition isoYear :: "int \<Rightarrow> jsstring" where
  "isoYear y =
     (if 0 \<le> y \<and> y \<le> 9999 then pad4 (nat y)
      else (if y < 0 then CH CHR ''-'' else CH CHR ''+'') # pad6 (nat \<bar>y\<bar>))"

definition toISOString :: "int \<Rightarrow> jsstring" where
  "toISOString t =
     (let ms = nat (t mod msPerDay) in
      case civil (t div msPerDay) of (y, m, dd) \<Rightarrow>
        isoYear y @ [CH CHR ''-''] @ pad2 (nat m) @ [CH CHR ''-''] @ pad2 (nat dd)
        @ [CH CHR ''T''] @ pad2 (ms div 3600000) @ [CH CHR '':''] @ pad2 (ms div 60000 mod 60)
        @ [CH CHR '':''] @ pad2 (ms div 1000 mod 60) @ [CH CHR ''.''] @ pad3 (ms mod 1000)
        @ [CH CHR ''Z''])"

text \<open>
  \<^verbatim>\<open>const getTodayString = () => new Date().toISOString().split('T')[0];\<close>
  Element 0 of the array \<open>split\<close> returns (it is never empty, see \<open>split_nonempty\<close>).
\<close>

definition getTodayString :: "int \<Rightarrow> jsstring" where
  "getTodayString now = (case split (CH CHR ''T'') (toISOString now) of p # _ \<Rightarrow> p | [] \<Rightarrow> [])"

text \<open>
  The specification's \<open>dateOnly(now)\<close> in local time: the calendar date of the local time
  value \<open>now + tza\<close>, where \<open>tza\<close> is the local time zone adjustment in milliseconds
  (ECMAScript's \<open>LocalTime\<close>), in the same \<open>YYYY-MM-DD\<close> format.
\<close>

definition specLocalDateString :: "int \<Rightarrow> int \<Rightarrow> jsstring" where
  "specLocalDateString tza now =
     (case civil ((now + tza) div msPerDay) of (y, m, dd) \<Rightarrow>
        isoYear y @ [CH CHR ''-''] @ pad2 (nat m) @ [CH CHR ''-''] @ pad2 (nat dd))"

section \<open>JavaScript values\<close>

text \<open>
  A number is kept as the decimal its literal denotes: sign, digits and power of ten
  (the value \<open>m * 10 ^ e\<close>, negated when the sign is set). JavaScript rounds it to an
  IEEE double; the one place the program looks at a number's value is a truth test,
  which \<open>roundsToZero\<close> decides by rounding to nearest, ties to even. The text of a number
  is not modelled: it is the parameter \<open>numText\<close> of \<open>JSON_stringify\<close> and of the
  operations that call it.
\<close>

datatype decimalnum = Decimal bool nat int

datatype jsval =
    JUndefined
  | JNull
  | JBool bool
  | JNum decimalnum
  | JStr jsstring
  | JArr "jsval list"
  | JObj "(jsstring \<times> jsval) list"

datatype js_exn = SyntaxError | TypeError | SecurityError | QuotaExceededError

text \<open>
  A double is zero when the decimal is at most \<open>2 ^ -1075\<close> in size (half the least
  subnormal; the tie goes to the even neighbour, zero).
\<close>

fun roundsToZero :: "decimalnum \<Rightarrow> bool" where
  "roundsToZero (Decimal neg m e) =
     (m = 0 \<or> (e < 0 \<and> m * 2 ^ 1075 \<le> 10 ^ nat (- e)))"

text \<open>\<open>ToBoolean\<close>, as \<open>!\<close> applies it.\<close>

fun truthy :: "jsval \<Rightarrow> bool" where
  "truthy JUndefined = False"
| "truthy JNull = False"
| "truthy (JBool b) = b"
| "truthy (JNum d) = (\<not> roundsToZero d)"
| "truthy (JStr s) = (s \<noteq> [])"
| "truthy (JArr xs) = True"
| "truthy (JObj ps) = True"

subsection \<open>Property keys and their order\<close>

text \<open>
  An object's own properties are an association list in the order JavaScript enumerates
  them: array indices (canonical decimal strings below \<open>2 ^ 32 - 1\<close>) first, ascending,
  then the other keys in the order they were created.
\<close>

definition isDigit :: "jschar \<Rightarrow> bool" where
  "isDigit c = (CH CHR ''0'' \<le> c \<and> c \<le> CH CHR ''9'')"

definition digitVal :: "jschar \<Rightarrow> nat" where
  "digitVal c = unat c - 48"

definition decimalValue :: "jsstring \<Rightarrow> nat" where
  "decimalValue s = foldl (\<lambda>n c. n * 10 + digitVal c) 0 s"

definition arrayIndex :: "jsstring \<Rightarrow> nat option" where
  "arrayIndex k =
     (if k \<noteq> [] \<and> list_all isDigit k \<and> (hd k \<noteq> CH CHR ''0'' \<or> length k = 1)
         \<and> decimalValue k < 2 ^ 32 - 1
      then Some (decimalValue k) else None)"

fun insertIndexed :: "nat \<Rightarrow> jsstring \<Rightarrow> jsval \<Rightarrow> (jsstring \<times> jsval) list \<Rightarrow> (jsstring \<times> jsval) list" where
  "insertIndexed i k v [] = [(k, v)]"
| "insertIndexed i k v ((k', v') # ps) =
     (case arrayIndex k' of
        Some j \<Rightarrow> if j < i then (k', v') # insertIndexed i k v ps else (k, v) # (k', v') # ps
      | None \<Rightarrow> (k, v) # (k', v') # ps)"

text \<open>\<open>CreateDataProperty\<close>: an existing key keeps its place and takes the new value.\<close>

definition putProp :: "jsstring \<Rightarrow> jsval \<Rightarrow> (jsstring \<times> jsval) list \<Rightarrow> (jsstring \<times> jsval) list" where
  "putProp k v ps =
     (if k \<in> set (map fst ps) then map (\<lambda>(k', v'). if k' = k then (k', v) else (k', v')) ps
      else (case arrayIndex k of
              Some i \<Rightarrow> insertIndexed i k v ps
            | None \<Rightarrow> ps @ [(k, v)]))"

text \<open>
  Reading a property, \<open>o.k\<close> or \<open>o[k]\<close>, for the five names the program reads
  (\<open>date\<close>, \<open>checks\<close>, \<open>morning\<close>, \<open>lunch\<close>, \<open>dinner\<close>): none of them is defined on a
  prototype, an index or \<open>length\<close>, so only an object's own properties can answer.
  On \<open>null\<close> and \<open>undefined\<close> the read throws a TypeError.
\<close>

fun getProp :: "jsval \<Rightarrow> jsstring \<Rightarrow> js_exn + jsval" where
  "getProp JUndefined k = Inl TypeError"
| "getProp JNull k = Inl TypeError"
| "getProp (JObj ps) k = (case map_of ps k of Some v \<Rightarrow> Inr v | None \<Rightarrow> Inr JUndefined)"
| "getProp v k = Inr JUndefined"

text \<open>Decimal text of an index, for the keys of spread strings and arrays.\<close>

fun decimalText :: "nat \<Rightarrow> jsstring" where
  "decimalText n = (if n < 10 then [digit n] else decimalText (n div 10) @ [digit n])"

declare decimalText.simps [simp del]

text \<open>
  Object spread \<open>{...v}\<close>: the own enumerable properties of \<open>v\<close>; nothing for
  \<open>undefined\<close>, \<open>null\<close>, booleans and numbers; the code units of a string and the
  elements of an array under their indices.
\<close>

fun spread :: "jsval \<Rightarrow> (jsstring \<times> jsval) list" where
  "spread (JObj ps) = ps"
| "spread (JStr s) = map (\<lambda>i. (decimalText i, JStr [s ! i])) [0 ..< length s]"
| "spread (JArr xs) = map (\<lambda>i. (decimalText i, xs ! i)) [0 ..< length xs]"
| "spread v = []"

section \<open>\<open>JSON.parse\<close>\<close>

subsection \<open>Tokens\<close>

datatype token =
    TLBrace | TRBrace | TLBracket | TRBracket | TColon | TComma
  | TString jsstring | TNumber decimalnum | TTrue | TFalse | TNull

text \<open>
  A number literal is \<open>-? (0 | [1-9][0-9]*) (. [0-9]+)? ([eE] [+-]? [0-9]+)?\<close>. The
  accumulator holds the place reached in it, the sign, the digits read as one natural
  number, how many of them follow the point, and the exponent's sign and value.
\<close>

datatype numphase = NSign | NZero | NInt | NDot | NFrac | NE | NESign | NExp

datatype numacc = NumAcc numphase bool nat nat bool nat

definition isExpMark :: "jschar \<Rightarrow> bool" where
  "isExpMark c = (c = CH CHR ''e'' \<or> c = CH CHR ''E'')"

text \<open>The literal continued by one more character, when it can be.\<close>

fun num_char :: "numacc \<Rightarrow> jschar \<Rightarrow> numacc option" where
  "num_char (NumAcc NSign ng m fl en ev) c =
     (if c = CH CHR ''0'' then Some (NumAcc NZero ng 0 fl en ev)
      else if isDigit c then Some (NumAcc NInt ng (digitVal c) fl en ev)
      else None)"
| "num_char (NumAcc NZero ng m fl en ev) c =
     (if c = CH CHR ''.'' then Some (NumAcc NDot ng m fl en ev)
      else if isExpMark c then Some (NumAcc NE ng m fl en ev)
      else None)"
| "num_char (NumAcc NInt ng m fl en ev) c =
     (if isDigit c then Some (NumAcc NInt ng (m * 10 + digitVal c) fl en ev)
      else if c = CH CHR ''.'' then Some (NumAcc NDot ng m fl en ev)
      else if isExpMark c then Some (NumAcc NE ng m fl en ev)
      else None)"
| "num_char (NumAcc NDot ng m fl en ev) c =
     (if isDigit c then Some (NumAcc NFrac ng (m * 10 + digitVal c) (Suc fl) en ev)
      else None)"
| "num_char (NumAcc NFrac ng m fl en ev) c =
     (if isDigit c then Some (NumAcc NFrac ng (m * 10 + digitVal c) (Suc fl) en ev)
      else if isExpMark c then Some (NumAcc NE ng m fl en ev)
      else None)"
| "num_char (NumAcc NE ng m fl en ev) c =
     (if c = CH CHR ''+'' then Some (NumAcc NESign ng m fl False ev)
      else if c = CH CHR ''-'' then Some (NumAcc NESign ng m fl True ev)
      else if isDigit c then Some (NumAcc NExp ng m fl en (digitVal c))
      else None)"
| "num_char (NumAcc NESign ng m fl en ev) c =
     (if isDigit c then Some (NumAcc NExp ng m fl en (digitVal c)) else None)"
| "num_char (NumAcc NExp ng m fl en ev) c =
     (if isDigit c then Some (NumAcc NExp ng m fl en (ev * 10 + digitVal c)) else None)"

text \<open>A literal may end only after a digit of its integer, fraction or exponent part.\<close>

fun num_end :: "numacc \<Rightarrow> decimalnum option" where
  "num_end (NumAcc ph ng m fl en ev) =
     (if ph = NZero \<or> ph = NInt \<or> ph = NFrac \<or> ph = NExp
      then Some (Decimal ng m ((if en then - int ev else int ev) - int fl))
      else None)"

definition hexVal :: "jschar \<Rightarrow> nat option" where
  "hexVal c =
     (if isDigit c then Some (unat c - 48)
      else if CH CHR ''a'' \<le> c \<and> c \<le> CH CHR ''f'' then Some (unat c - 87)
      else if CH CHR ''A'' \<le> c \<and> c \<le> CH CHR ''F'' then Some (unat c - 55)
      else None)"

text \<open>
  The scanner's state between two characters: between tokens; inside a string (the code
  units read so far, last first), after a backslash, inside \<open>\uXXXX\<close> (the hex digits
  read so far); inside a number; inside \<open>true\<close>, \<open>false\<close> or \<open>null\<close> (the characters
  still expected).
\<close>

datatype lexmode =
    LIdle
  | LStr jsstring
  | LEsc jsstring
  | LHex jsstring "nat list"
  | LNum numacc
  | LLit jsstring token

definition isJsonSpace :: "jschar \<Rightarrow> bool" where
  "isJsonSpace c = (c = 0x20 \<or> c = 0x09 \<or> c = 0x0A \<or> c = 0x0D)"

definition lex_idle :: "jschar \<Rightarrow> (token list \<times> lexmode) option" where
  "lex_idle c =
     (if isJsonSpace c then Some ([], LIdle)
      else if c = CH CHR ''{'' then Some ([TLBrace], LIdle)
      else if c = CH CHR ''}'' then Some ([TRBrace], LIdle)
      else if c = CH CHR ''['' then Some ([TLBracket], LIdle)
      else if c = CH CHR '']'' then Some ([TRBracket], LIdle)
      else if c = CH CHR '':'' then Some ([TColon], LIdle)
      else if c = CH CHR '','' then Some ([TComma], LIdle)
      else if c = 0x22 then Some ([], LStr [])
      else if c = CH CHR ''-'' then Some ([], LNum (NumAcc NSign True 0 0 False 0))
      else if c = CH CHR ''0'' then Some ([], LNum (NumAcc NZero False 0 0 False 0))
      else if isDigit c then Some ([], LNum (NumAcc NInt False (digitVal c) 0 False 0))
      else if c = CH CHR ''t'' then Some ([], LLit (U ''rue'') TTrue)
      else if c = CH CHR ''f'' then Some ([], LLit (U ''alse'') TFalse)
      else if c = CH CHR ''n'' then Some ([], LLit (U ''ull'') TNull)
      else None)"

definition escapeChar :: "jschar \<Rightarrow> jschar option" where
  "escapeChar c =
     (if c = 0x22 then Some 0x22
      else if c = 0x5C then Some 0x5C
      else if c = CH CHR ''/'' then Some (CH CHR ''/'')
      else if c = CH CHR ''b'' then Some 0x08
      else if c = CH CHR ''f'' then Some 0x0C
      else if c = CH CHR ''n'' then Some 0x0A
      else if c = CH CHR ''r'' then Some 0x0D
      else if c = CH CHR ''t'' then Some 0x09
      else None)"

fun lex_char :: "lexmode \<Rightarrow> jschar \<Rightarrow> (token list \<times> lexmode) option" where
  "lex_char LIdle c = lex_idle c"
| "lex_char (LStr acc) c =
     (if c = 0x22 then Some ([TString (rev acc)], LIdle)
      else if c = 0x5C then Some ([], LEsc acc)
      else if c < 0x20 then None
      else Some ([], LStr (c # acc)))"
| "lex_char (LEsc acc) c =
     (if c = CH CHR ''u'' then Some ([], LHex acc [])
      else (case escapeChar c of
              Some e \<Rightarrow> Some ([], LStr (e # acc))
            | None \<Rightarrow> None))"
| "lex_char (LHex acc hs) c =
     (case hexVal c of
        None \<Rightarrow> None
      | Some h \<Rightarrow>
          if length hs = 3
          then Some ([], LStr (of_nat (foldl (\<lambda>n d. n * 16 + d) 0 (hs @ [h])) # acc))
          else Some ([], LHex acc (hs @ [h])))"
| "lex_char (LNum a) c =
     (case num_char a c of
        Some a' \<Rightarrow> Some ([], LNum a')
      | None \<Rightarrow>
          (case num_end a of
             None \<Rightarrow> None
           | Some n \<Rightarrow>
               (case lex_idle c of
                  None \<Rightarrow> None
                | Some (ts, m) \<Rightarrow> Some (TNumber n # ts, m))))"
| "lex_char (LLit [] tok) c = None"
| "lex_char (LLit (r # rs) tok) c =
     (if c \<noteq> r then None
      else if rs = [] then Some ([tok], LIdle)
      else Some ([], LLit rs tok))"

fun lex_end :: "lexmode \<Rightarrow> token list option" where
  "lex_end LIdle = Some []"
| "lex_end (LNum a) = (case num_end a of Some n \<Rightarrow> Some [TNumber n] | None \<Rightarrow> None)"
| "lex_end m = None"

fun lex :: "lexmode \<Rightarrow> jsstring \<Rightarrow> token list option" where
  "lex m [] = lex_end m"
| "lex m (c # cs) =
     (case lex_char m c of
        None \<Rightarrow> None
      | Some (ts, m') \<Rightarrow>
          (case lex m' cs of
             None \<Rightarrow> None
           | Some rest \<Rightarrow> Some (ts @ rest)))"

subsection \<open>Values from tokens\<close>

text \<open>
  The parser keeps the containers still open, innermost first: an array with the
  elements read so far, or an object with its properties and the key whose value is
  awaited. Its mode says what token may come next.
\<close>

datatype frame = FArr "jsval list" | FObj "(jsstring \<times> jsval) list" "jsstring option"

datatype pmode = PValue | PValueOrClose | PKey | PKeyOrClose | PColon | PAfter | PDone jsval

text \<open>A finished value goes to the innermost open container, or is the result.\<close>

fun deliver :: "jsval \<Rightarrow> frame list \<Rightarrow> (frame list \<times> pmode) option" where
  "deliver v [] = Some ([], PDone v)"
| "deliver v (FArr xs # st) = Some (FArr (xs @ [v]) # st, PAfter)"
| "deliver v (FObj ps (Some k) # st) = Some (FObj (putProp k v ps) None # st, PAfter)"
| "deliver v (FObj ps None # st) = None"

fun closeArray :: "frame list \<Rightarrow> (frame list \<times> pmode) option" where
  "closeArray (FArr xs # st) = deliver (JArr xs) st"
| "closeArray st = None"

fun closeObject :: "frame list \<Rightarrow> (frame list \<times> pmode) option" where
  "closeObject (FObj ps None # st) = deliver (JObj ps) st"
| "closeObject st = None"

fun startValue :: "frame list \<Rightarrow> token \<Rightarrow> (frame list \<times> pmode) option" where
  "startValue st (TString s) = deliver (JStr s) st"
| "startValue st (TNumber n) = deliver (JNum n) st"
| "startValue st TTrue = deliver (JBool True) st"
| "startValue st TFalse = deliver (JBool False) st"
| "startValue st TNull = deliver JNull st"
| "startValue st TLBracket = Some (FArr [] # st, PValueOrClose)"
| "startValue st TLBrace = Some (FObj [] None # st, PKeyOrClose)"
| "startValue st t = None"

fun startKey :: "frame list \<Rightarrow> token \<Rightarrow> (frame list \<times> pmode) option" where
  "startKey (FObj ps None # st) (TString k) = Some (FObj ps (Some k) # st, PColon)"
| "startKey st t = None"

fun parse_token :: "frame list \<times> pmode \<Rightarrow> token \<Rightarrow> (frame list \<times> pmode) option" where
  "parse_token (st, PValue) t = startValue st t"
| "parse_token (st, PValueOrClose) t = (if t = TRBracket then closeArray st else startValue st t)"
| "parse_token (st, PKey) t = startKey st t"
| "parse_token (st, PKeyOrClose) t = (if t = TRBrace then closeObject st else startKey st t)"
| "parse_token (st, PColon) t = (if t = TColon then Some (st, PValue) else None)"
| "parse_token (st, PAfter) t =
     (if t = TRBracket then closeArray st
      else if t = TRBrace then closeObject st
      else if t = TComma then
        (case st of
           FArr xs # _ \<Rightarrow> Some (st, PValue)
         | FObj ps k # _ \<Rightarrow> Some (st, PKey)
         | [] \<Rightarrow> None)
      else None)"
| "parse_token (st, PDone v) t = None"

fun parse_tokens :: "frame list \<times> pmode \<Rightarrow> token list \<Rightarrow> (frame list \<times> pmode) option" where
  "parse_tokens s [] = Some s"
| "parse_tokens s (t # ts) =
     (case parse_token s t of
        None \<Rightarrow> None
      | Some s' \<Rightarrow> parse_tokens s' ts)"

text \<open>\<open>JSON.parse(text)\<close>: the value, or a SyntaxError.\<close>

definition JSON_parse :: "jsstring \<Rightarrow> js_exn + jsval" where
  "JSON_parse s =
     (case lex LIdle s of
        None \<Rightarrow> Inl SyntaxError
      | Some ts \<Rightarrow>
          (case parse_tokens ([], PValue) ts of
             Some ([], PDone v) \<Rightarrow> Inr v
           | _ \<Rightarrow> Inl SyntaxError))"

section \<open>\<open>JSON.stringify\<close>\<close>

definition hexDigit :: "nat \<Rightarrow> jschar" where
  "hexDigit d = (if d mod 16 < 10 then of_nat (48 + d mod 16) else of_nat (87 + d mod 16))"

text \<open>\<open>\uXXXX\<close> with lower-case hex digits.\<close>

definition unicodeEscape :: "jschar \<Rightarrow> jsstring" where
  "unicodeEscape c =
     [0x5C, CH CHR ''u'', hexDigit (unat c div 4096), hexDigit (unat c div 256),
      hexDigit (unat c div 16), hexDigit (unat c)]"

definition isLeadSurrogate :: "jschar \<Rightarrow> bool" where
  "isLeadSurrogate c = (0xD800 \<le> c \<and> c \<le> 0xDBFF)"

definition isTrailSurrogate :: "jschar \<Rightarrow> bool" where
  "isTrailSurrogate c = (0xDC00 \<le> c \<and> c \<le> 0xDFFF)"

definition quoteChar :: "jschar \<Rightarrow> jsstring" where
  "quoteChar c =
     (if c = 0x08 then [0x5C, CH CHR ''b'']
      else if c = 0x09 then [0x5C, CH CHR ''t'']
      else if c = 0x0A then [0x5C, CH CHR ''n'']
      else if c = 0x0C then [0x5C, CH CHR ''f'']
      else if c = 0x0D then [0x5C, CH CHR ''r'']
      else if c = 0x22 then [0x5C, 0x22]
      else if c = 0x5C then [0x5C, 0x5C]
      else if c < 0x20 \<or> isLeadSurrogate c \<or> isTrailSurrogate c then unicodeEscape c
      else [c])"

text \<open>A surrogate pair stays as it is; a surrogate on its own is escaped.\<close>

fun quoteChars :: "jsstring \<Rightarrow> jsstring" where
  "quoteChars [] = []"
| "quoteChars [c] = quoteChar c"
| "quoteChars (c # d # cs) =
     (if isLeadSurrogate c \<and> isTrailSurrogate d then c # d # quoteChars cs
      else quoteChar c @ quoteChars (d # cs))"

definition quoteJSONString :: "jsstring \<Rightarrow> jsstring" where
  "quoteJSONString s = 0x22 # quoteChars s @ [0x22]"

fun joinWith :: "jschar \<Rightarrow> jsstring list \<Rightarrow> jsstring" where
  "joinWith sep [] = []"
| "joinWith sep [p] = p"
| "joinWith sep (p # q # ps) = p @ sep # joinWith sep (q # ps)"

text \<open>
  The text of a value, \<open>None\<close> for \<open>undefined\<close>: an object leaves out a property whose
  value has no text, an array prints \<open>null\<close> for such an element. \<open>numText\<close> is the text
  of a number.
\<close>

fun serialize :: "(decimalnum \<Rightarrow> jsstring) \<Rightarrow> jsval \<Rightarrow> jsstring option"
  and serializeElements :: "(decimalnum \<Rightarrow> jsstring) \<Rightarrow> jsval list \<Rightarrow> jsstring list"
  and serializeProperties :: "(decimalnum \<Rightarrow> jsstring) \<Rightarrow> (jsstring \<times> jsval) list \<Rightarrow> jsstring list"
where
  "serialize numText JUndefined = None"
| "serialize numText JNull = Some (U ''null'')"
| "serialize numText (JBool b) = Some (if b then U ''true'' else U ''false'')"
| "serialize numText (JNum d) = Some (numText d)"
| "serialize numText (JStr s) = Some (quoteJSONString s)"
| "serialize numText (JArr xs) =
     Some (CH CHR ''['' # joinWith (CH CHR '','') (serializeElements numText xs) @ [CH CHR '']''])"
| "serialize numText (JObj ps) =
     Some (CH CHR ''{'' # joinWith (CH CHR '','') (serializeProperties numText ps) @ [CH CHR ''}''])"
| "serializeElements numText [] = []"
| "serializeElements numText (x # xs) =
     (case serialize numText x of None \<Rightarrow> U ''null'' | Some t \<Rightarrow> t) # serializeElements numText xs"
| "serializeProperties numText [] = []"
| "serializeProperties numText ((k, v) # ps) =
     (case serialize numText v of
        None \<Rightarrow> serializeProperties numText ps
      | Some t \<Rightarrow> (quoteJSONString k @ CH CHR '':'' # t) # serializeProperties numText ps)"

text \<open>
  \<open>JSON.stringify(v)\<close> as \<open>setItem\<close> stores it: \<open>setItem\<close> takes the text of its argument,
  which for \<open>undefined\<close> is the word itself. The program only ever passes an object.
\<close>

definition JSON_stringify :: "(decimalnum \<Rightarrow> jsstring) \<Rightarrow> jsval \<Rightarrow> jsstring" where
  "JSON_stringify numText v =
     (case serialize numText v of Some t \<Rightarrow> t | None \<Rightarrow> U ''undefined'')"

section \<open>\<open>localStorage\<close>\<close>

text \<open>
  The store maps keys to strings. Its behaviour is part of its state: when it is not
  \<open>available\<close>, touching \<open>localStorage\<close> throws a SecurityError; when it is \<open>full\<close>,
  \<open>setItem\<close> throws a QuotaExceededError. \<open>written\<close> is the history of the \<open>setItem\<close>
  calls that stored their value, oldest first.
\<close>

record storage =
  items :: "jsstring \<rightharpoonup> jsstring"
  available :: bool
  full :: bool
  written :: "(jsstring \<times> jsstring) list"

definition getItem :: "jsstring \<Rightarrow> storage \<Rightarrow> js_exn + jsstring option" where
  "getItem k st = (if available st then Inr (items st k) else Inl SecurityError)"

text \<open>The store after a \<open>setItem\<close> that went through: the value fully replaces the old one.\<close>

definition withItem :: "jsstring \<Rightarrow> jsstring \<Rightarrow> storage \<Rightarrow> storage" where
  "withItem k v st = st\<lparr>items := (items st)(k \<mapsto> v), written := written st @ [(k, v)]\<rparr>"

definition setItem :: "jsstring \<Rightarrow> jsstring \<Rightarrow> storage \<Rightarrow> js_exn + storage" where
  "setItem k v st =
     (if \<not> available st then Inl SecurityError
      else if full st then Inl QuotaExceededError
      else Inr (withItem k v st))"

section \<open>The component\<close>

text \<open>
  \<^verbatim>\<open>type TimeSlot = 'morning' | 'lunch' | 'dinner';\<close>
\<close>

datatype TimeSlot = Morning | Lunch | Dinner

fun slotKey :: "TimeSlot \<Rightarrow> jsstring" where
  "slotKey Morning = U ''morning''"
| "slotKey Lunch = U ''lunch''"
| "slotKey Dinner = U ''dinner''"

text \<open>
  The component's state (\<open>checks\<close>, \<open>lastDate\<close>, \<open>isLoaded\<close>), the store, and what
  \<open>console.error\<close> was given. \<open>checks\<close> has the TypeScript type \<open>CheckState\<close>, but at run
  time it holds whatever \<open>JSON.parse\<close> produced, so it is a JavaScript value here.
\<close>

record world =
  checks :: jsval
  lastDate :: jsstring
  isLoaded :: bool
  localStorage :: storage
  console :: "js_exn list"

datatype outcome = Returned | Threw js_exn

definition storageKey :: jsstring where
  "storageKey = U ''supplement-check-data''"

text \<open>\<^verbatim>\<open>{ morning: false, lunch: false, dinner: false }\<close>\<close>

definition allFalse :: jsval where
  "allFalse = JObj [(U ''morning'', JBool False), (U ''lunch'', JBool False), (U ''dinner'', JBool False)]"

text \<open>\<^verbatim>\<open>{ date: d, checks: c }\<close>\<close>

definition StoredData :: "jsstring \<Rightarrow> jsval \<Rightarrow> jsval" where
  "StoredData d c = JObj [(U ''date'', JStr d), (U ''checks'', c)]"

text \<open>The state of the first render, at time \<open>now\<close>: the initial values of \<open>useState\<close>.\<close>

definition initialWorld :: "int \<Rightarrow> storage \<Rightarrow> world" where
  "initialWorld now st =
     \<lparr>checks = allFalse, lastDate = getTodayString now, isLoaded = False,
      localStorage = st, console = []\<rparr>"

subsection \<open>\<open>loadData\<close>\<close>

text \<open>
  The body of the \<open>try\<close> block (lines 39 to 51), given the text read from the store:
  the exception it stops with, if any, and the state reached.
\<close>

definition loadTry :: "(decimalnum \<Rightarrow> jsstring) \<Rightarrow> jsstring \<Rightarrow> jsstring \<Rightarrow> world \<Rightarrow> js_exn option \<times> world" where
  "loadTry numText today storedJson w =
     (case JSON_parse storedJson of
        Inl e \<Rightarrow> (Some e, w)
      | Inr storedData \<Rightarrow>
          (case getProp storedData (U ''date'') of
             Inl e \<Rightarrow> (Some e, w)
           | Inr date \<Rightarrow>
               if date \<noteq> JStr today then
                 (let w1 = w\<lparr>checks := allFalse, lastDate := today\<rparr> in
                  case setItem storageKey (JSON_stringify numText (StoredData today allFalse)) (localStorage w1) of
                    Inl e \<Rightarrow> (Some e, w1)
                  | Inr st \<Rightarrow> (None, w1\<lparr>localStorage := st\<rparr>))
               else
                 (case getProp storedData (U ''checks'') of
                    Inl e \<Rightarrow> (Some e, w)
                  | Inr c \<Rightarrow> (None, w\<lparr>checks := c, lastDate := today\<rparr>))))"

text \<open>
  \<open>loadData\<close> (lines 33 to 60). The read of the store comes before the \<open>try\<close>: when it
  throws, the function is left at once. A string is truthy when it is not empty.
\<close>

definition loadData :: "(decimalnum \<Rightarrow> jsstring) \<Rightarrow> int \<Rightarrow> world \<Rightarrow> outcome \<times> world" where
  "loadData numText now w =
     (let today = getTodayString now in
      case getItem storageKey (localStorage w) of
        Inl e \<Rightarrow> (Threw e, w)
      | Inr storedJson \<Rightarrow>
          (case storedJson of
             Some s \<Rightarrow>
               if s \<noteq> [] then
                 (case loadTry numText today s w of
                    (Some e, w1) \<Rightarrow> (Returned, w1\<lparr>console := console w1 @ [e], isLoaded := True\<rparr>)
                  | (None, w1) \<Rightarrow> (Returned, w1\<lparr>isLoaded := True\<rparr>))
               else (Returned, w\<lparr>lastDate := today, isLoaded := True\<rparr>)
           | None \<Rightarrow> (Returned, w\<lparr>lastDate := today, isLoaded := True\<rparr>)))"

subsection \<open>\<open>toggleCheck\<close>\<close>

text \<open>
  \<open>toggleCheck\<close> (lines 76 to 98). In \<open>{ ...checks, [slot]: !checks[slot] }\<close> the spread
  is evaluated first and throws nothing; reading \<open>checks[slot]\<close> throws when \<open>checks\<close> is
  \<open>undefined\<close> or \<open>null\<close>. There is no \<open>try\<close>: a throwing \<open>setItem\<close> leaves the function
  after the state was set.
\<close>

definition toggleCheck :: "(decimalnum \<Rightarrow> jsstring) \<Rightarrow> TimeSlot \<Rightarrow> int \<Rightarrow> world \<Rightarrow> outcome \<times> world" where
  "toggleCheck numText slot now w =
     (let today = getTodayString now in
      if today \<noteq> lastDate w then
        (let w1 = w\<lparr>checks := allFalse, lastDate := today\<rparr> in
         case setItem storageKey (JSON_stringify numText (StoredData today allFalse)) (localStorage w1) of
           Inl e \<Rightarrow> (Threw e, w1)
         | Inr st \<Rightarrow> (Returned, w1\<lparr>localStorage := st\<rparr>))
      else
        (case getProp (checks w) (slotKey slot) of
           Inl e \<Rightarrow> (Threw e, w)
         | Inr cur \<Rightarrow>
             (let newChecks = JObj (putProp (slotKey slot) (JBool (\<not> truthy cur)) (spread (checks w)));
                  w1 = w\<lparr>checks := newChecks\<rparr>
              in case setItem storageKey (JSON_stringify numText (StoredData today newChecks)) (localStorage w1) of
                   Inl e \<Rightarrow> (Threw e, w1)
                 | Inr st \<Rightarrow> (Returned, w1\<lparr>localStorage := st\<rparr>))))"

subsection \<open>Well-formed check states and runs\<close>

text \<open>
  \<^verbatim>\<open>interface CheckState { morning: boolean; lunch: boolean; dinner: boolean; }\<close>
  as a property of a run-time value: an object with exactly the three keys, each a
  boolean. \<open>checked c x\<close> says that slot \<open>x\<close> of \<open>c\<close> is \<open>true\<close>.
\<close>

fun isBool :: "jsval \<Rightarrow> bool" where
  "isBool (JBool b) = True"
| "isBool v = False"

fun isCheckState :: "jsval \<Rightarrow> bool" where
  "isCheckState (JObj ps) =
     (distinct (map fst ps)
      \<and> set (map fst ps) = {U ''morning'', U ''lunch'', U ''dinner''}
      \<and> list_all (\<lambda>p. isBool (snd p)) ps)"
| "isCheckState v = False"

definition checked :: "jsval \<Rightarrow> TimeSlot \<Rightarrow> bool" where
  "checked c x = (getProp c (slotKey x) = Inr (JBool True))"

text \<open>\<open>loadData\<close> called once at each of the given times, in order: the outcomes and the final state.\<close>

fun loadDataSeq :: "(decimalnum \<Rightarrow> jsstring) \<Rightarrow> int list \<Rightarrow> world \<Rightarrow> outcome list \<times> world" where
  "loadDataSeq numText [] w = ([], w)"
| "loadDataSeq numText (t # ts) w =
     (case loadData numText t w of
        (r, w1) \<Rightarrow> (case loadDataSeq numText ts w1 of (rs, w2) \<Rightarrow> (r # rs, w2)))"

text \<open>
  What the presentation layer does with a mounted component: it calls \<open>loadData\<close> (on
  mount and whenever the page becomes visible) and \<open>toggleCheck\<close> (on a click), one call
  after the other, each at its own time. \<open>session\<close> is the state after such calls.
\<close>

datatype event = Reconcile int | Toggle TimeSlot int

fun perform :: "(decimalnum \<Rightarrow> jsstring) \<Rightarrow> event \<Rightarrow> world \<Rightarrow> outcome \<times> world" where
  "perform numText (Reconcile t) w = loadData numText t w"
| "perform numText (Toggle x t) w = toggleCheck numText x t w"

fun session :: "(decimalnum \<Rightarrow> jsstring) \<Rightarrow> event list \<Rightarrow> world \<Rightarrow> world" where
  "session numText [] w = w"
| "session numText (e # es) w = session numText es (snd (perform numText e w))"

text \<open>
  The store works and, while it holds nothing under the key, the checks are all-false.
\<close>

definition emptyMeansUnchecked :: "world \<Rightarrow> bool" where
  "emptyMeansUnchecked w =
     (available (localStorage w) \<and> \<not> full (localStorage w)
      \<and> (if items (localStorage w) storageKey = None then checks w = allFalse else True))"

subsection \<open>Example data\<close>

text \<open>
  Two instants, 2024-05-01T15:30:00Z and the same time one day later; a store that works
  and holds nothing, and one that holds a given text under the program's key; a text
  for numbers (no example contains one).
\<close>

definition may1 :: int where
  "may1 = 1714577400000"

definition may2 :: int where
  "may2 = 1714663800000"

definition emptyStore :: storage where
  "emptyStore = \<lparr>items = Map.empty, available = True, full = False, written = []\<rparr>"

definition storeHolding :: "jsstring \<Rightarrow> storage" where
  "storeHolding s = \<lparr>items = [storageKey \<mapsto> s], available = True, full = False, written = []\<rparr>"

text \<open>The empty store when it refuses every write, and when it cannot be touched at all.\<close>

definition fullStore :: storage where
  "fullStore = \<lparr>items = Map.empty, available = True, full = True, written = []\<rparr>"

definition blockedStore :: storage where
  "blockedStore = \<lparr>items = Map.empty, available = False, full = False, written = []\<rparr>"

definition plainNumText :: "decimalnum \<Rightarrow> jsstring" where
  "plainNumText d = U ''0''"

text \<open>
  A \<open>CheckState\<close> literal, and the state of a loaded component: given checks and current
  date, over a given store, nothing logged.
\<close>

definition CheckState :: "bool \<Rightarrow> bool \<Rightarrow> bool \<Rightarrow> jsval" where
  "CheckState m l d = JObj [(U ''morning'', JBool m), (U ''lunch'', JBool l), (U ''dinner'', JBool d)]"

definition loadedWorld :: "jsval \<Rightarrow> jsstring \<Rightarrow> storage \<Rightarrow> world" where
  "loadedWorld c d st = \<lparr>checks = c, lastDate = d, isLoaded = True, localStorage = st, console = []\<rparr>"

section \<open>Basic facts\<close>

lemma split_nonempty: "split sep s \<noteq> []"
  by (induction s) (auto split: list.splits)

lemma unat_CH: "unat (CH c) = of_char c"
proof -
  have "(of_char c :: nat) < 256" by simp
  then have "(of_char c :: nat) < 65536" by linarith
  then have "(of_char c :: nat) mod 65536 = of_char c" by (rule mod_less)
  then show ?thesis by (simp add: CH_def unat_of_nat)
qed

lemma CH_eq_iff [simp]: "CH a = CH b \<longleftrightarrow> a = b"
proof
  assume "CH a = CH b"
  then have "unat (CH a) = unat (CH b)" by simp
  then have "(of_char a :: nat) = of_char b" by (simp only: unat_CH)
  then show "a = b" by simp
qed simp

lemma U_eq_iff [simp]: "U a = U b \<longleftrightarrow> a = b"
proof -
  have "inj CH" by (rule injI) simp
  then show ?thesis by (simp add: U_def inj_map_eq_map)
qed

lemma U_Nil [simp]: "U [] = []"
  by (simp add: U_def)

lemma U_eq_Nil [simp]: "U s = [] \<longleftrightarrow> s = []"
  by (simp add: U_def)

lemma slotKey_inj [simp]: "slotKey x = slotKey y \<longleftrightarrow> x = y"
  by (cases x; cases y) simp_all

section \<open>What each branch does\<close>

lemma JSON_parse_Nil [simp]: "JSON_parse [] = Inl SyntaxError"
  by (simp add: JSON_parse_def)

lemma getProp_date_not_null: "getProp v k = Inr (JStr d) \<Longrightarrow> \<exists>ps. v = JObj ps"
  by (cases v) simp_all

lemma loadData_unavailable:
  "\<not> available (localStorage w) \<Longrightarrow> loadData numText now w = (Threw SecurityError, w)"
  by (simp add: loadData_def getItem_def)

lemma loadData_absent:
  assumes "available (localStorage w)"
    and "items (localStorage w) storageKey = None \<or> items (localStorage w) storageKey = Some []"
  shows "loadData numText now w = (Returned, w\<lparr>lastDate := getTodayString now, isLoaded := True\<rparr>)"
  using assms by (auto simp add: loadData_def getItem_def)

lemma loadData_unparsable:
  assumes "available (localStorage w)"
    and "items (localStorage w) storageKey = Some s" and "s \<noteq> []"
    and "JSON_parse s = Inl e"
  shows "loadData numText now w = (Returned, w\<lparr>console := console w @ [e], isLoaded := True\<rparr>)"
  using assms by (simp add: loadData_def getItem_def loadTry_def)

lemma loadData_null:
  assumes "available (localStorage w)"
    and "items (localStorage w) storageKey = Some s"
    and "JSON_parse s = Inr v" and "v = JNull \<or> v = JUndefined"
  shows "loadData numText now w = (Returned, w\<lparr>console := console w @ [TypeError], isLoaded := True\<rparr>)"
proof -
  have "s \<noteq> []" using assms(3) by auto
  then show ?thesis using assms by (auto simp add: loadData_def getItem_def loadTry_def)
qed

lemma loadData_stale:
  assumes "available (localStorage w)"
    and "items (localStorage w) storageKey = Some s"
    and "JSON_parse s = Inr v" and "getProp v (U ''date'') = Inr d"
    and "d \<noteq> JStr (getTodayString now)"
  shows "loadData numText now w =
     (if full (localStorage w)
      then (Returned, w\<lparr>checks := allFalse, lastDate := getTodayString now,
                          console := console w @ [QuotaExceededError], isLoaded := True\<rparr>)
      else (Returned, w\<lparr>checks := allFalse, lastDate := getTodayString now, isLoaded := True,
                          localStorage := withItem storageKey
                            (JSON_stringify numText (StoredData (getTodayString now) allFalse))
                            (localStorage w)\<rparr>))"
proof -
  have "s \<noteq> []" using assms(3) by auto
  then show ?thesis using assms by (simp add: loadData_def getItem_def loadTry_def setItem_def Let_def)
qed

lemma loadData_same_day:
  assumes "available (localStorage w)"
    and "items (localStorage w) storageKey = Some s"
    and "JSON_parse s = Inr v" and "getProp v (U ''date'') = Inr (JStr (getTodayString now))"
    and "getProp v (U ''checks'') = Inr c"
  shows "loadData numText now w =
     (Returned, w\<lparr>checks := c, lastDate := getTodayString now, isLoaded := True\<rparr>)"
proof -
  have "s \<noteq> []" using assms(3) by auto
  then show ?thesis using assms by (simp add: loadData_def getItem_def loadTry_def)
qed

lemma toggleCheck_stale:
  assumes "getTodayString now \<noteq> lastDate w"
  shows "toggleCheck numText slot now w =
     (if \<not> available (localStorage w)
      then (Threw SecurityError, w\<lparr>checks := allFalse, lastDate := getTodayString now\<rparr>)
      else if full (localStorage w)
      then (Threw QuotaExceededError, w\<lparr>checks := allFalse, lastDate := getTodayString now\<rparr>)
      else (Returned, w\<lparr>checks := allFalse, lastDate := getTodayString now,
                          localStorage := withItem storageKey
                            (JSON_stringify numText (StoredData (getTodayString now) allFalse))
                            (localStorage w)\<rparr>))"
  using assms by (simp add: toggleCheck_def setItem_def Let_def)

lemma toggleCheck_same_day:
  assumes "getTodayString now = lastDate w"
    and "getProp (checks w) (slotKey slot) = Inr cur"
    and "newChecks = JObj (putProp (slotKey slot) (JBool (\<not> truthy cur)) (spread (checks w)))"
  shows "toggleCheck numText slot now w =
     (if \<not> available (localStorage w)
      then (Threw SecurityError, w\<lparr>checks := newChecks\<rparr>)
      else if full (localStorage w)
      then (Threw QuotaExceededError, w\<lparr>checks := newChecks\<rparr>)
      else (Returned, w\<lparr>checks := newChecks,
                          localStorage := withItem storageKey
                            (JSON_stringify numText (StoredData (lastDate w) newChecks))
                            (localStorage w)\<rparr>))"
  using assms by (simp add: toggleCheck_def setItem_def Let_def)

section \<open>Well-formed check states\<close>

lemma slotKey_cases: "slotKey x = U ''morning'' \<or> slotKey x = U ''lunch'' \<or> slotKey x = U ''dinner''"
  by (cases x) simp_all

lemma map_of_bool:
  assumes "list_all (\<lambda>p. isBool (snd p)) ps" and "k \<in> set (map fst ps)"
  shows "\<exists>b. map_of ps k = Some (JBool b)"
  using assms
proof (induction ps)
  case Nil
  then show ?case by simp
next
  case (Cons p ps)
  obtain k' v' where p: "p = (k', v')" by (cases p)
  show ?case
  proof (cases "k' = k")
    case True
    from Cons.prems(1) p have "isBool v'" by simp
    then obtain b where "v' = JBool b" by (cases v') simp_all
    with True p show ?thesis by simp
  next
    case False
    with Cons p show ?thesis by auto
  qed
qed

lemma isCheckState_getProp:
  assumes "isCheckState c"
  shows "getProp c (slotKey x) = Inr (JBool (checked c x))"
proof -
  from assms obtain ps where c: "c = JObj ps" by (cases c) simp_all
  from assms c have keys: "set (map fst ps) = {U ''morning'', U ''lunch'', U ''dinner''}"
    and bools: "list_all (\<lambda>p. isBool (snd p)) ps" by simp_all
  have "slotKey x \<in> set (map fst ps)" using keys slotKey_cases [of x] by auto
  from map_of_bool [OF bools this] obtain b where "map_of ps (slotKey x) = Some (JBool b)" ..
  then show ?thesis by (simp add: c checked_def)
qed

lemma map_of_replace_hit:
  "k \<in> set (map fst ps) \<Longrightarrow>
   map_of (map (\<lambda>(k', v'). if k' = k then (k', v) else (k', v')) ps) k = Some v"
  by (induction ps) (auto split: prod.splits)

lemma map_of_replace_other:
  "k'' \<noteq> k \<Longrightarrow>
   map_of (map (\<lambda>(k', v'). if k' = k then (k', v) else (k', v')) ps) k'' = map_of ps k''"
  by (induction ps) (auto split: prod.splits)

lemma map_of_replace:
  "k \<in> set (map fst ps) \<Longrightarrow>
   map_of (map (\<lambda>(k', v'). if k' = k then (k', v) else (k', v')) ps) k'' =
     (if k'' = k then Some v else map_of ps k'')"
  using map_of_replace_hit [of k ps v] map_of_replace_other [of k'' k v ps] by (cases "k'' = k") simp_all

lemma map_fst_replace:
  "map fst (map (\<lambda>(k', v'). if k' = k then (k', v) else (k', v')) ps) = map fst ps"
  by (induction ps) auto

lemma list_all_replace:
  "list_all (\<lambda>p. isBool (snd p)) ps \<Longrightarrow>
   list_all (\<lambda>p. isBool (snd p)) (map (\<lambda>(k', v'). if k' = k then (k', JBool b) else (k', v')) ps)"
  by (induction ps) auto

lemma isCheckState_toggled:
  assumes "isCheckState c"
  shows "isCheckState (JObj (putProp (slotKey slot) (JBool b) (spread c)))"
    and "checked (JObj (putProp (slotKey slot) (JBool b) (spread c))) x = (if x = slot then b else checked c x)"
proof -
  from assms(1) obtain ps where c: "c = JObj ps" by (cases c) simp_all
  from assms(1) c have dist: "distinct (map fst ps)"
    and keys: "set (map fst ps) = {U ''morning'', U ''lunch'', U ''dinner''}"
    and bools: "list_all (\<lambda>p. isBool (snd p)) ps" by simp_all
  have mem: "slotKey slot \<in> set (map fst ps)" using keys slotKey_cases [of slot] by auto
  then have c': "JObj (putProp (slotKey slot) (JBool b) (spread c)) =
      JObj (map (\<lambda>(k', v'). if k' = slotKey slot then (k', JBool b) else (k', v')) ps)"
    by (simp add: c putProp_def)
  have fsts: "map fst (map (\<lambda>(k', v'). if k' = slotKey slot then (k', JBool b) else (k', v')) ps) = map fst ps"
    by (rule map_fst_replace)
  show "isCheckState (JObj (putProp (slotKey slot) (JBool b) (spread c)))"
    unfolding c' isCheckState.simps fsts using dist keys list_all_replace [OF bools] by simp
  show "checked (JObj (putProp (slotKey slot) (JBool b) (spread c))) x = (if x = slot then b else checked c x)"
    unfolding c' using mem by (simp add: c checked_def map_of_replace)
qed

section \<open>When the operations return\<close>

lemma JSON_parse_error: "JSON_parse s = Inl e \<Longrightarrow> e = SyntaxError"
  by (auto simp add: JSON_parse_def split: option.splits prod.splits list.splits pmode.splits)

lemma loadTry_storage:
  "localStorage (snd (loadTry numText today s w)) = localStorage w
   \<or> localStorage (snd (loadTry numText today s w)) =
       withItem storageKey (JSON_stringify numText (StoredData today allFalse)) (localStorage w)"
  by (simp add: loadTry_def setItem_def Let_def split: sum.splits)

lemma loadData_returns:
  "available (localStorage w) \<Longrightarrow> fst (loadData numText now w) = Returned"
  by (simp add: loadData_def getItem_def Let_def split: option.splits prod.splits)

lemma loadData_storage:
  "localStorage (snd (loadData numText now w)) = localStorage w
   \<or> localStorage (snd (loadData numText now w)) =
       withItem storageKey (JSON_stringify numText (StoredData (getTodayString now) allFalse)) (localStorage w)"
proof (cases "loadTry numText (getTodayString now) (the (items (localStorage w) storageKey)) w")
  case (Pair e w1)
  with loadTry_storage [of numText "getTodayString now" "the (items (localStorage w) storageKey)" w]
  show ?thesis
    by (auto simp add: loadData_def getItem_def Let_def split: option.splits sum.splits)
qed

lemma getProp_defined:
  "v \<noteq> JUndefined \<Longrightarrow> v \<noteq> JNull \<Longrightarrow> \<exists>cur. getProp v k = Inr cur"
  by (cases v) (simp_all split: option.splits)

lemma toggleCheck_returns:
  assumes "available (localStorage w)" and "\<not> full (localStorage w)"
    and "checks w \<noteq> JUndefined" and "checks w \<noteq> JNull"
  shows "fst (toggleCheck numText slot now w) = Returned"
proof -
  obtain cur where "getProp (checks w) (slotKey slot) = Inr cur"
    using getProp_defined [OF assms(3,4)] by blast
  then show ?thesis using assms(1,2) by (simp add: toggleCheck_def setItem_def Let_def)
qed

section \<open>Sessions over a store that works\<close>

text \<open>
  Over a store that can be read and takes every write, a state reached from the first
  render has all-false checks as long as the store holds nothing under the key: every
  toggle leaves a record there.
\<close>

lemma withItem_simps [simp]:
  "available (withItem k v st) = available st" "full (withItem k v st) = full st"
  "items (withItem k v st) k = Some v" "written (withItem k v st) = written st @ [(k, v)]"
  by (simp_all add: withItem_def)

lemma loadData_emptyMeansUnchecked:
  assumes "emptyMeansUnchecked w"
  shows "emptyMeansUnchecked (snd (loadData numText now w))"
proof (cases "items (localStorage w) storageKey")
  case None
  with assms show ?thesis by (simp add: emptyMeansUnchecked_def loadData_absent)
next
  case (Some s)
  from loadData_storage [of numText now w] Some assms show ?thesis
    by (auto simp add: emptyMeansUnchecked_def)
qed

lemma toggleCheck_emptyMeansUnchecked:
  assumes "emptyMeansUnchecked w"
  shows "emptyMeansUnchecked (snd (toggleCheck numText slot now w))"
proof (cases "getTodayString now = lastDate w")
  case False
  from toggleCheck_stale [OF this, of numText slot] assms show ?thesis
    by (simp add: emptyMeansUnchecked_def)
next
  case True
  show ?thesis
  proof (cases "getProp (checks w) (slotKey slot)")
    case (Inl e)
    with True assms show ?thesis by (simp add: toggleCheck_def)
  next
    case (Inr cur)
    from toggleCheck_same_day [OF True Inr refl, of numText] assms show ?thesis
      by (simp add: emptyMeansUnchecked_def)
  qed
qed

lemma session_emptyMeansUnchecked:
  "emptyMeansUnchecked w \<Longrightarrow> emptyMeansUnchecked (session numText es w)"
proof (induction es arbitrary: w)
  case Nil
  then show ?case by simp
next
  case (Cons e es)
  have "emptyMeansUnchecked (snd (perform numText e w))"
    using Cons.prems
    by (cases e) (simp_all add: loadData_emptyMeansUnchecked toggleCheck_emptyMeansUnchecked)
  then show ?case using Cons.IH by simp
qed

lemma initialWorld_emptyMeansUnchecked:
  "available st \<Longrightarrow> \<not> full st \<Longrightarrow> emptyMeansUnchecked (initialWorld t st)"
  by (simp add: emptyMeansUnchecked_def initialWorld_def)

section \<open>The date part of the ISO string\<close>

lemma unat_digit: "unat (digit d) = 48 + d mod 10"
proof -
  have "d mod 10 < 10" by simp
  then have "48 + d mod 10 < (65536::nat)" by linarith
  then have small: "(48 + d mod 10) mod 65536 = 48 + d mod 10" by (rule mod_less)
  have "unat (digit d) = (48 + d mod 10) mod 2 ^ LENGTH(16)"
    unfolding digit_def by (rule unat_of_nat)
  with small show ?thesis by simp
qed

lemma digit_not_T [simp]: "digit d \<noteq> CH CHR ''T''" "CH CHR ''T'' \<noteq> digit d"
proof -
  show "digit d \<noteq> CH CHR ''T''"
  proof
    assume "digit d = CH CHR ''T''"
    then have "unat (digit d) = unat (CH CHR ''T'')" by simp
    then have "48 + d mod 10 = 84" by (simp add: unat_digit unat_CH)
    moreover have "d mod 10 < 10" by simp
    ultimately show False by linarith
  qed
  then show "CH CHR ''T'' \<noteq> digit d" by (rule not_sym)
qed

lemma pad_no_T: "CH CHR ''T'' \<notin> set (pad k n)"
  by (induction k arbitrary: n) auto

lemma isoYear_no_T: "CH CHR ''T'' \<notin> set (isoYear y)"
  by (simp add: isoYear_def pad4_def pad6_def pad_no_T)

lemma split_prefix: "sep \<notin> set a \<Longrightarrow> split sep (a @ sep # b) = a # split sep b"
  by (induction a) (auto split: list.splits)

lemma getTodayString_utc: "getTodayString now = specLocalDateString 0 now"
proof -
  obtain y m dd where c: "civil (now div msPerDay) = (y, m, dd)" by (cases "civil (now div msPerDay)")
  define datePart where "datePart = isoYear y @ [CH CHR ''-''] @ pad2 (nat m) @ [CH CHR ''-''] @ pad2 (nat dd)"
  have noT: "CH CHR ''T'' \<notin> set datePart"
    by (simp add: datePart_def isoYear_no_T pad2_def pad_no_T)
  obtain timePart where iso: "toISOString now = datePart @ CH CHR ''T'' # timePart"
    by (simp add: toISOString_def c datePart_def Let_def)
  have "getTodayString now = datePart"
    by (simp add: getTodayString_def iso split_prefix [OF noT])
  moreover have "specLocalDateString 0 now = datePart"
    by (simp add: specLocalDateString_def c datePart_def)
  ultimately show ?thesis by simp
qed

section \<open>The examples, evaluated\<close>

lemmas json_eval =
  JSON_parse_def lex_idle_def isJsonSpace_def isDigit_def digitVal_def isExpMark_def
  escapeChar_def hexVal_def putProp_def arrayIndex_def decimalValue_def U_def CH_def

lemmas stringify_eval =
  JSON_stringify_def StoredData_def allFalse_def CheckState_def quoteJSONString_def quoteChar_def
  isLeadSurrogate_def isTrailSurrogate_def U_def CH_def

lemmas date_eval =
  getTodayString_def toISOString_def specLocalDateString_def msPerDay_def isoYear_def
  pad2_def pad3_def pad4_def digit_def U_def CH_def

lemma civil_may1: "civil 19844 = (2024, 5, 1)"
  by code_simp

lemma civil_may2: "civil 19845 = (2024, 5, 2)"
  by code_simp

lemma today_may1: "getTodayString may1 = U ''2024-05-01''"
  by (simp add: may1_def date_eval civil_may1)

lemma today_may2: "getTodayString may2 = U ''2024-05-02''"
  by (simp add: may2_def date_eval civil_may2)

lemma allFalse_CheckState: "allFalse = CheckState False False False"
  by (simp add: allFalse_def CheckState_def)

lemma parse_record_may1_all_true:
  \<open>JSON_parse (U ''{"date":"2024-05-01","checks":{"morning":true,"lunch":true,"dinner":true}}'')
     = Inr (StoredData (U ''2024-05-01'') (CheckState True True True))\<close>
  by (simp add: json_eval StoredData_def CheckState_def)

lemma stringify_record_may2_all_false:
  \<open>JSON_stringify numText (StoredData (U ''2024-05-02'') (CheckState False False False))
     = U ''{"date":"2024-05-02","checks":{"morning":false,"lunch":false,"dinner":false}}''\<close>
  by (simp add: stringify_eval)

lemma storeHolding_simps [simp]:
  "available (storeHolding s)" "\<not> full (storeHolding s)"
  "items (storeHolding s) storageKey = Some s" "written (storeHolding s) = []"
  by (simp_all add: storeHolding_def)

lemma emptyStore_simps [simp]:
  "available emptyStore" "\<not> full emptyStore"
  "items emptyStore k = None" "written emptyStore = []"
  by (simp_all add: emptyStore_def)

lemma loadedWorld_simps [simp]:
  "checks (loadedWorld c d st) = c" "lastDate (loadedWorld c d st) = d"
  "isLoaded (loadedWorld c d st) = True" "localStorage (loadedWorld c d st) = st"
  "console (loadedWorld c d st) = []"
  by (simp_all add: loadedWorld_def)

lemma getProp_StoredData [simp]:
  "getProp (StoredData d c) (U ''date'') = Inr (JStr d)"
  "getProp (StoredData d c) (U ''checks'') = Inr c"
  by (simp_all add: StoredData_def)

lemma local_may1_tokyo: "specLocalDateString 32400000 may1 = U ''2024-05-02''"
  by (simp add: may1_def date_eval civil_may2)

lemma toggle_example:
  \<open>toggleCheck plainNumText Lunch may1
      (loadedWorld (CheckState True False False) (U ''2024-05-01'') st)
    = (if \<not> available st
       then (Threw SecurityError, loadedWorld (CheckState True True False) (U ''2024-05-01'') st)
       else if full st
       then (Threw QuotaExceededError, loadedWorld (CheckState True True False) (U ''2024-05-01'') st)
       else (Returned,
       loadedWorld (CheckState True True False) (U ''2024-05-01'')
         (withItem storageKey
            (JSON_stringify plainNumText (StoredData (U ''2024-05-01'') (CheckState True True False)))
            st)))\<close>
  by (simp add: toggleCheck_def today_may1 setItem_def CheckState_def putProp_def Let_def loadedWorld_def)
lemma stringify_record_may1_lunch:
  \<open>JSON_stringify numText (StoredData (U ''2024-05-01'') (CheckState True True False))
     = U ''{"date":"2024-05-01","checks":{"morning":true,"lunch":true,"dinner":false}}''\<close>
  by (simp add: stringify_eval)

lemma parse_record_may1_morning:
  \<open>JSON_parse (U ''{"date":"2024-05-01","checks":{"morning":true,"lunch":false,"dinner":false}}'')
     = Inr (StoredData (U ''2024-05-01'') (CheckState True False False))\<close>
  by (simp add: json_eval StoredData_def CheckState_def)

lemma fullStore_simps [simp]:
  "available fullStore" "full fullStore" "items fullStore k = None" "written fullStore = []"
  by (simp_all add: fullStore_def)

lemma blockedStore_simps [simp]:
  "\<not> available blockedStore" "items blockedStore k = None" "written blockedStore = []"
  by (simp_all add: blockedStore_def)

lemma CheckState_eq_iff [simp]:
  "CheckState m l d = CheckState m' l' d' \<longleftrightarrow> m = m' \<and> l = l' \<and> d = d'"
  by (auto simp add: CheckState_def)

lemma isCheckState_CheckState [simp]: "isCheckState (CheckState m l d)"
  by (auto simp add: CheckState_def)

lemma parse_record_may1_morning_only:
  \<open>JSON_parse (U ''{"date":"2024-05-01","checks":{"morning":true}}'')
     = Inr (StoredData (U ''2024-05-01'') (JObj [(U ''morning'', JBool True)]))\<close>
  by (simp add: json_eval StoredData_def)

lemma parse_record_may1_no_checks:
  \<open>JSON_parse (U ''{"date":"2024-05-01"}'') = Inr (JObj [(U ''date'', JStr (U ''2024-05-01''))])\<close>
  by (simp add: json_eval)

lemma parse_not_json: "JSON_parse (U ''not json'') = Inl SyntaxError"
  by (simp add: json_eval)

lemma parse_record_may1_two_slots:
  \<open>JSON_parse (U ''{"date":"2024-05-01","checks":{"morning":true,"lunch":true}}'')
     = Inr (StoredData (U ''2024-05-01'') (JObj [(U ''morning'', JBool True), (U ''lunch'', JBool True)]))\<close>
  by (simp add: json_eval StoredData_def)

lemma stringify_record_may1_two_slots:
  \<open>JSON_stringify numText
      (StoredData (U ''2024-05-01'') (JObj [(U ''morning'', JBool True), (U ''lunch'', JBool True)]))
     = U ''{"date":"2024-05-01","checks":{"morning":true,"lunch":true}}''\<close>
  by (simp add: stringify_eval)

lemma parse_record_may1_lunch:
  \<open>JSON_parse (U ''{"date":"2024-05-01","checks":{"morning":true,"lunch":true,"dinner":false}}'')
     = Inr (StoredData (U ''2024-05-01'') (CheckState True True False))\<close>
  by (simp add: json_eval StoredData_def CheckState_def)

lemma two_slots_not_CheckState:
  "\<not> isCheckState (JObj [(U ''morning'', a), (U ''lunch'', b)])"
proof
  assume "isCheckState (JObj [(U ''morning'', a), (U ''lunch'', b)])"
  then have "{U ''morning'', U ''lunch''} = {U ''morning'', U ''lunch'', U ''dinner''}" by simp
  then have "U ''dinner'' \<in> {U ''morning'', U ''lunch''}" by blast
  then show False by simp
qed

lemma parse_null: "JSON_parse (U ''null'') = Inr JNull"
  by (simp add: json_eval)

lemma parse_checks_only:
  \<open>JSON_parse (U ''{"checks":{}}'') = Inr (JObj [(U ''checks'', JObj [])])\<close>
  by (simp add: json_eval)

lemma stringify_record_may1_all_false:
  \<open>JSON_stringify numText (StoredData (U ''2024-05-01'') (CheckState False False False))
     = U ''{"date":"2024-05-01","checks":{"morning":false,"lunch":false,"dinner":false}}''\<close>
  by (simp add: stringify_eval)

lemma toggle_example_stale:
  "toggleCheck plainNumText Morning may2
      (loadedWorld (CheckState True True True) (U ''2024-05-01'') emptyStore)
    = (Returned,
       loadedWorld (CheckState False False False) (U ''2024-05-02'')
         (withItem storageKey
            (JSON_stringify plainNumText (StoredData (U ''2024-05-02'') (CheckState False False False)))
            emptyStore))"
  by (simp add: toggleCheck_def today_may2 setItem_def allFalse_CheckState Let_def loadedWorld_def)

lemma toggle_example_missing_slots:
  "toggleCheck plainNumText Lunch may1
      (loadedWorld (JObj [(U ''morning'', JBool True)]) (U ''2024-05-01'') emptyStore)
    = (Returned,
       loadedWorld (JObj [(U ''morning'', JBool True), (U ''lunch'', JBool True)]) (U ''2024-05-01'')
         (withItem storageKey
            (JSON_stringify plainNumText
               (StoredData (U ''2024-05-01'') (JObj [(U ''morning'', JBool True), (U ''lunch'', JBool True)])))
            emptyStore))"
proof -
  have "arrayIndex (U ''lunch'') = None"
    by (simp add: arrayIndex_def U_def CH_def isDigit_def)
  then show ?thesis
    by (simp add: toggleCheck_def today_may1 setItem_def putProp_def Let_def loadedWorld_def)
qed

section \<open>The claims\<close>

text \<open>
  C1 (rollover resets). The store holds a record whose date is \<open>D1\<close>, with any checks and
  any other content, and the store works. Called at a time whose date \<open>D2\<close> is not \<open>D1\<close>,
  \<open>loadData\<close> sets the checks to all-false, the current date to \<open>D2\<close>, and stores the record
  \<open>{date: D2, checks: all-false}\<close> under the key; so does \<open>toggleCheck\<close> for every slot, in
  the state whose current date is that of the record (\<open>toggleCheck\<close> compares today with
  \<open>lastDate\<close>, which is the record's date whenever the state was loaded from it).
\<close>

theorem rollover_resets:
  assumes "available (localStorage w)" and "\<not> full (localStorage w)"
    and "items (localStorage w) storageKey = Some s"
    and "JSON_parse s = Inr v" and "getProp v (U ''date'') = Inr (JStr D1)"
    and "getTodayString now = D2" and "D2 \<noteq> D1"
  shows "loadData numText now w =
           (Returned, w\<lparr>checks := allFalse, lastDate := D2, isLoaded := True,
                         localStorage := withItem storageKey
                           (JSON_stringify numText (StoredData D2 allFalse)) (localStorage w)\<rparr>)
       \<and> (lastDate w = D1 \<longrightarrow>
            toggleCheck numText slot now w =
              (Returned, w\<lparr>checks := allFalse, lastDate := D2,
                            localStorage := withItem storageKey
                              (JSON_stringify numText (StoredData D2 allFalse)) (localStorage w)\<rparr>))"
proof
  have "JStr D1 \<noteq> JStr (getTodayString now)" using assms(6,7) by simp
  from loadData_stale [OF assms(1,3,4,5) this, of numText]
  show "loadData numText now w =
           (Returned, w\<lparr>checks := allFalse, lastDate := D2, isLoaded := True,
                         localStorage := withItem storageKey
                           (JSON_stringify numText (StoredData D2 allFalse)) (localStorage w)\<rparr>)"
    using assms(2,6) by simp
next
  show "lastDate w = D1 \<longrightarrow>
            toggleCheck numText slot now w =
              (Returned, w\<lparr>checks := allFalse, lastDate := D2,
                            localStorage := withItem storageKey
                              (JSON_stringify numText (StoredData D2 allFalse)) (localStorage w)\<rparr>)"
  proof
    assume "lastDate w = D1"
    then have "getTodayString now \<noteq> lastDate w" using assms(6,7) by simp
    from toggleCheck_stale [OF this, of numText slot]
    show "toggleCheck numText slot now w =
              (Returned, w\<lparr>checks := allFalse, lastDate := D2,
                            localStorage := withItem storageKey
                              (JSON_stringify numText (StoredData D2 allFalse)) (localStorage w)\<rparr>)"
      using assms(1,2,6) by simp
  qed
qed

theorem rollover_resets_witness:
  \<open>loadData plainNumText may2
      (loadedWorld (CheckState True True True) (U ''2024-05-01'')
         (storeHolding (U ''{"date":"2024-05-01","checks":{"morning":true,"lunch":true,"dinner":true}}'')))
    = (Returned,
       loadedWorld (CheckState False False False) (U ''2024-05-02'')
         (withItem storageKey
            (U ''{"date":"2024-05-02","checks":{"morning":false,"lunch":false,"dinner":false}}'')
            (storeHolding (U ''{"date":"2024-05-01","checks":{"morning":true,"lunch":true,"dinner":true}}''))))
   \<and> toggleCheck plainNumText Morning may2
      (loadedWorld (CheckState True True True) (U ''2024-05-01'')
         (storeHolding (U ''{"date":"2024-05-01","checks":{"morning":true,"lunch":true,"dinner":true}}'')))
    = (Returned,
       loadedWorld (CheckState False False False) (U ''2024-05-02'')
         (withItem storageKey
            (U ''{"date":"2024-05-02","checks":{"morning":false,"lunch":false,"dinner":false}}'')
            (storeHolding (U ''{"date":"2024-05-01","checks":{"morning":true,"lunch":true,"dinner":true}}''))))\<close>
  using rollover_resets
    [where w = \<open>loadedWorld (CheckState True True True) (U ''2024-05-01'')
         (storeHolding (U ''{"date":"2024-05-01","checks":{"morning":true,"lunch":true,"dinner":true}}''))\<close>
       and s = \<open>U ''{"date":"2024-05-01","checks":{"morning":true,"lunch":true,"dinner":true}}''\<close>
       and v = \<open>StoredData (U ''2024-05-01'') (CheckState True True True)\<close>
       and ?D1.0 = \<open>U ''2024-05-01''\<close> and ?D2.0 = \<open>U ''2024-05-02''\<close> and now = may2
       and numText = plainNumText and slot = Morning]
  by (simp add: parse_record_may1_all_true today_may2 stringify_record_may2_all_false
        allFalse_CheckState)

text \<open>
  C2 (discarded stale toggle). When today's date is not the current date \<open>lastDate\<close>,
  \<open>toggleCheck\<close> of any slot only resets: the checks become all-false whatever they were,
  so the slot asked for is false afterwards, the current date becomes today, and the
  record \<open>{date: today, checks: all-false}\<close> is stored. (When the store refuses, the
  in-memory reset has happened and the store's exception leaves the function.)
\<close>

theorem stale_toggle_discarded:
  assumes "getTodayString now \<noteq> lastDate w"
  shows "toggleCheck numText slot now w =
           (if \<not> available (localStorage w)
            then (Threw SecurityError, w\<lparr>checks := allFalse, lastDate := getTodayString now\<rparr>)
            else if full (localStorage w)
            then (Threw QuotaExceededError, w\<lparr>checks := allFalse, lastDate := getTodayString now\<rparr>)
            else (Returned, w\<lparr>checks := allFalse, lastDate := getTodayString now,
                     localStorage := withItem storageKey
                       (JSON_stringify numText (StoredData (getTodayString now) allFalse))
                       (localStorage w)\<rparr>))
       \<and> checks (snd (toggleCheck numText slot now w)) = allFalse
       \<and> \<not> checked (checks (snd (toggleCheck numText slot now w))) slot
       \<and> getProp (checks (snd (toggleCheck numText slot now w))) (slotKey slot) = Inr (JBool False)"
proof -
  note run = toggleCheck_stale [OF assms, of numText slot]
  have reset: "checks (snd (toggleCheck numText slot now w)) = allFalse"
    by (simp add: run)
  have "getProp allFalse (slotKey slot) = Inr (JBool False)"
    by (cases slot) (simp_all add: allFalse_def)
  with run reset show ?thesis by (simp add: checked_def)
qed

theorem stale_toggle_discarded_witness:
  \<open>getTodayString may2 \<noteq> lastDate (loadedWorld (CheckState True True True) (U ''2024-05-01'') emptyStore)
   \<and> toggleCheck plainNumText Morning may2
        (loadedWorld (CheckState True True True) (U ''2024-05-01'') emptyStore)
      = (Returned,
         loadedWorld (CheckState False False False) (U ''2024-05-02'')
           (withItem storageKey
              (U ''{"date":"2024-05-02","checks":{"morning":false,"lunch":false,"dinner":false}}'')
              emptyStore))
   \<and> getProp (CheckState False False False) (U ''morning'') = Inr (JBool False)\<close>
proof -
  let ?w = "loadedWorld (CheckState True True True) (U ''2024-05-01'') emptyStore"
  have stale: "getTodayString may2 \<noteq> lastDate ?w" by (simp add: today_may2)
  from stale_toggle_discarded [OF stale, of plainNumText Morning] stale
  show ?thesis
    by (simp add: today_may2 stringify_record_may2_all_false allFalse_CheckState loadedWorld_def)
       (simp add: CheckState_def)
qed

text \<open>
  C3 (today is the local date). The date string the program uses is the date part of
  \<open>toISOString\<close>, which is the calendar date in UTC at every instant: the local date for
  an offset of zero. At 2024-05-01T15:30:00Z, where the local time zone is nine hours
  ahead of UTC (00:30 on 2 May there), the program's today is \<open>2024-05-01\<close> and the local
  date is \<open>2024-05-02\<close>.
\<close>

theorem today_is_utc_date:
  "getTodayString now = specLocalDateString 0 now
   \<and> getTodayString may1 = U ''2024-05-01''
   \<and> specLocalDateString 32400000 may1 = U ''2024-05-02''"
  by (simp add: getTodayString_utc [symmetric] today_may1 local_may1_tokyo)

text \<open>
  C4 (store failures never propagate), as stated: no operation lets a store failure reach
  its caller. Two do. \<open>toggleCheck\<close> has no handler: over a store that refuses the write
  it sets the state and then throws the store's QuotaExceededError. \<open>loadData\<close> reads the
  store before its \<open>try\<close>: over a store that cannot be touched it throws the SecurityError.
\<close>

theorem store_failure_propagates_counterexample:
  "toggleCheck plainNumText Morning may1
      (loadedWorld (CheckState False False False) (U ''2024-05-01'') fullStore)
    = (Threw QuotaExceededError, loadedWorld (CheckState True False False) (U ''2024-05-01'') fullStore)
   \<and> loadData plainNumText may1 (initialWorld may1 blockedStore)
    = (Threw SecurityError, initialWorld may1 blockedStore)"
proof -
  have "toggleCheck plainNumText Morning may1
      (loadedWorld (CheckState False False False) (U ''2024-05-01'') fullStore)
    = (Threw QuotaExceededError, loadedWorld (CheckState True False False) (U ''2024-05-01'') fullStore)"
    by (simp add: toggleCheck_def today_may1 setItem_def CheckState_def putProp_def Let_def loadedWorld_def)
  moreover have "loadData plainNumText may1 (initialWorld may1 blockedStore)
    = (Threw SecurityError, initialWorld may1 blockedStore)"
    by (simp add: loadData_unavailable initialWorld_def)
  ultimately show ?thesis by simp
qed

text \<open>
  C4, amended: a failure of the write inside \<open>loadData\<close> is caught there. Whenever the
  store can be read, \<open>loadData\<close> returns normally; when the store refuses the write of
  the stale branch, the reset stays in memory (checks all-false, current date today) and
  the error is logged. \<open>toggleCheck\<close> returns normally whenever the store takes its write
  and the in-memory checks are neither \<open>undefined\<close> nor \<open>null\<close>.
\<close>

theorem store_failures_caught_in_load:
  assumes "available (localStorage w)"
  shows "fst (loadData numText now w) = Returned
       \<and> (\<forall>s v d. full (localStorage w) \<and> items (localStorage w) storageKey = Some s
                 \<and> JSON_parse s = Inr v \<and> getProp v (U ''date'') = Inr d
                 \<and> d \<noteq> JStr (getTodayString now) \<longrightarrow>
            loadData numText now w =
              (Returned, w\<lparr>checks := allFalse, lastDate := getTodayString now,
                            console := console w @ [QuotaExceededError], isLoaded := True\<rparr>))
       \<and> (\<not> full (localStorage w) \<and> checks w \<noteq> JUndefined \<and> checks w \<noteq> JNull \<longrightarrow>
            fst (toggleCheck numText slot now w) = Returned)"
proof (intro conjI allI impI)
  show "fst (loadData numText now w) = Returned"
    using assms by (rule loadData_returns)
next
  fix s v d
  assume a: "full (localStorage w) \<and> items (localStorage w) storageKey = Some s
                 \<and> JSON_parse s = Inr v \<and> getProp v (U ''date'') = Inr d
                 \<and> d \<noteq> JStr (getTodayString now)"
  then show "loadData numText now w =
              (Returned, w\<lparr>checks := allFalse, lastDate := getTodayString now,
                            console := console w @ [QuotaExceededError], isLoaded := True\<rparr>)"
    using loadData_stale [of w s v d now numText] assms by simp
next
  assume "\<not> full (localStorage w) \<and> checks w \<noteq> JUndefined \<and> checks w \<noteq> JNull"
  then show "fst (toggleCheck numText slot now w) = Returned"
    using assms by (simp add: toggleCheck_returns)
qed

theorem store_failures_caught_in_load_witness:
  \<open>loadData plainNumText may2
      (loadedWorld (CheckState True True True) (U ''2024-05-01'')
         ((storeHolding (U ''{"date":"2024-05-01","checks":{"morning":true,"lunch":true,"dinner":true}}''))
            \<lparr>full := True\<rparr>))
    = (Returned,
       (loadedWorld (CheckState False False False) (U ''2024-05-02'')
         ((storeHolding (U ''{"date":"2024-05-01","checks":{"morning":true,"lunch":true,"dinner":true}}''))
            \<lparr>full := True\<rparr>))
         \<lparr>console := [QuotaExceededError]\<rparr>)
   \<and> fst (toggleCheck plainNumText Morning may1
        (loadedWorld (CheckState False False False) (U ''2024-05-01'') emptyStore)) = Returned\<close>
proof -
  let ?s = \<open>U ''{"date":"2024-05-01","checks":{"morning":true,"lunch":true,"dinner":true}}''\<close>
  let ?w = "loadedWorld (CheckState True True True) (U ''2024-05-01'') ((storeHolding ?s)\<lparr>full := True\<rparr>)"
  let ?w' = "loadedWorld (CheckState False False False) (U ''2024-05-01'') emptyStore"
  have av: "available (localStorage ?w)" by simp
  have stale: "full (localStorage ?w) \<and> items (localStorage ?w) storageKey = Some ?s
      \<and> JSON_parse ?s = Inr (StoredData (U ''2024-05-01'') (CheckState True True True))
      \<and> getProp (StoredData (U ''2024-05-01'') (CheckState True True True)) (U ''date'') = Inr (JStr (U ''2024-05-01''))
      \<and> JStr (U ''2024-05-01'') \<noteq> JStr (getTodayString may2)"
    by (simp add: parse_record_may1_all_true today_may2)
  from store_failures_caught_in_load [OF av, of plainNumText may2] stale
  have load: "loadData plainNumText may2 ?w =
      (Returned, ?w\<lparr>checks := allFalse, lastDate := getTodayString may2,
                     console := console ?w @ [QuotaExceededError], isLoaded := True\<rparr>)"
    by blast
  have av': "available (localStorage ?w')" by simp
  have ok: "\<not> full (localStorage ?w') \<and> checks ?w' \<noteq> JUndefined \<and> checks ?w' \<noteq> JNull"
    by (simp add: CheckState_def)
  from store_failures_caught_in_load [OF av', of plainNumText may1 Morning] ok
  have "fst (toggleCheck plainNumText Morning may1 ?w') = Returned" by blast
  with load show ?thesis
    by (simp add: today_may2 allFalse_CheckState loadedWorld_def)
qed

text \<open>
  C5 (malformed data), as stated: for every malformed stored value \<open>loadData\<close> leaves the
  state all-false with today as current date. Two malformed values show otherwise. A
  record with today's date and no \<open>checks\<close>, read by the first load on 2024-05-01: the
  checks become \<open>undefined\<close>. The text \<open>not json\<close>, read by the first load on 2024-05-01
  and again on 2024-05-02 (the page was left open): both loads only log the error, and
  the current date is still 2024-05-01 after the second.
\<close>

theorem malformed_snapshot_counterexample:
  \<open>loadData plainNumText may1 (initialWorld may1 (storeHolding (U ''{"date":"2024-05-01"}'')))
     = (Returned, loadedWorld JUndefined (U ''2024-05-01'') (storeHolding (U ''{"date":"2024-05-01"}'')))
   \<and> JUndefined \<noteq> allFalse
   \<and> session plainNumText [Reconcile may1, Reconcile may2]
         (initialWorld may1 (storeHolding (U ''not json'')))
     = (loadedWorld (CheckState False False False) (U ''2024-05-01'') (storeHolding (U ''not json'')))
          \<lparr>console := [SyntaxError, SyntaxError]\<rparr>
   \<and> U ''2024-05-01'' \<noteq> getTodayString may2\<close>
proof -
  let ?s = \<open>U ''{"date":"2024-05-01"}''\<close>
  let ?w = "initialWorld may1 (storeHolding (U ''not json''))"
  have "loadData plainNumText may1 (initialWorld may1 (storeHolding ?s)) =
      (Returned, (initialWorld may1 (storeHolding ?s))
         \<lparr>checks := JUndefined, lastDate := getTodayString may1, isLoaded := True\<rparr>)"
    by (rule loadData_same_day [where s = ?s and v = "JObj [(U ''date'', JStr (U ''2024-05-01''))]"])
       (simp_all add: initialWorld_def parse_record_may1_no_checks today_may1)
  moreover
  have first: "loadData plainNumText may1 ?w = (Returned, ?w\<lparr>console := console ?w @ [SyntaxError], isLoaded := True\<rparr>)"
    by (rule loadData_unparsable [where s = "U ''not json''"])
       (simp_all add: parse_not_json initialWorld_def)
  have "loadData plainNumText may2 (?w\<lparr>console := console ?w @ [SyntaxError], isLoaded := True\<rparr>)
      = (Returned, ?w\<lparr>console := console ?w @ [SyntaxError], isLoaded := True\<rparr>
           \<lparr>console := console (?w\<lparr>console := console ?w @ [SyntaxError], isLoaded := True\<rparr>) @ [SyntaxError],
            isLoaded := True\<rparr>)"
    by (rule loadData_unparsable [where s = "U ''not json''"])
       (simp_all add: parse_not_json initialWorld_def)
  with first have "session plainNumText [Reconcile may1, Reconcile may2] ?w
     = (loadedWorld (CheckState False False False) (U ''2024-05-01'') (storeHolding (U ''not json'')))
          \<lparr>console := [SyntaxError, SyntaxError]\<rparr>"
    by (simp add: initialWorld_def loadedWorld_def today_may1 allFalse_CheckState)
  ultimately show ?thesis
    by (simp add: initialWorld_def loadedWorld_def today_may1 today_may2 allFalse_CheckState)
       (simp add: CheckState_def)
qed

text \<open>
  C5, amended: whenever the store can be read, \<open>loadData\<close> returns normally, whatever the
  stored value. The empty string is taken as no snapshot: nothing is logged, the current
  date is set to today and the in-memory checks are left as they are. A non-empty value
  that fails to parse, or a value that parses to \<open>null\<close>, is logged and leaves the
  in-memory checks and the current date as they were. Either way, on the state of a
  first render of the same day a value that fails to parse leaves the checks all-false
  and the current date today. A value that parses but carries no date equal to today's
  (wrong shape, missing date) is handled as a stale snapshot: checks all-false, current
  date today, and the fresh record written when the store accepts it.
\<close>

theorem malformed_snapshot_handling:
  assumes "available (localStorage w)"
    and "items (localStorage w) storageKey = Some s"
  shows "fst (loadData numText now w) = Returned
       \<and> (s = [] \<longrightarrow>
             JSON_parse s = Inl SyntaxError
             \<and> loadData numText now w = (Returned, w\<lparr>lastDate := getTodayString now, isLoaded := True\<rparr>))
       \<and> (\<forall>e. s \<noteq> [] \<and> JSON_parse s = Inl e \<longrightarrow>
             loadData numText now w = (Returned, w\<lparr>console := console w @ [e], isLoaded := True\<rparr>))
       \<and> (JSON_parse s = Inr JNull \<longrightarrow>
             loadData numText now w = (Returned, w\<lparr>console := console w @ [TypeError], isLoaded := True\<rparr>))
       \<and> (\<forall>e. JSON_parse s = Inl e \<and> lastDate w = getTodayString now \<and> checks w = allFalse \<longrightarrow>
             checks (snd (loadData numText now w)) = allFalse
             \<and> lastDate (snd (loadData numText now w)) = getTodayString now)
       \<and> (\<forall>v d. JSON_parse s = Inr v \<and> getProp v (U ''date'') = Inr d \<and> d \<noteq> JStr (getTodayString now) \<longrightarrow>
             checks (snd (loadData numText now w)) = allFalse
             \<and> lastDate (snd (loadData numText now w)) = getTodayString now
             \<and> (\<not> full (localStorage w) \<longrightarrow>
                  localStorage (snd (loadData numText now w)) =
                    withItem storageKey (JSON_stringify numText (StoredData (getTodayString now) allFalse))
                      (localStorage w)))"
proof (intro conjI allI impI)
  show "fst (loadData numText now w) = Returned"
    using assms(1) by (rule loadData_returns)
next
  assume "s = []"
  then show "JSON_parse s = Inl SyntaxError" by simp
next
  assume "s = []"
  then show "loadData numText now w = (Returned, w\<lparr>lastDate := getTodayString now, isLoaded := True\<rparr>)"
    using assms by (simp add: loadData_absent)
next
  fix e assume "s \<noteq> [] \<and> JSON_parse s = Inl e"
  then show "loadData numText now w = (Returned, w\<lparr>console := console w @ [e], isLoaded := True\<rparr>)"
    using assms by (simp add: loadData_unparsable)
next
  assume "JSON_parse s = Inr JNull"
  then show "loadData numText now w = (Returned, w\<lparr>console := console w @ [TypeError], isLoaded := True\<rparr>)"
    using assms by (simp add: loadData_null)
next
  fix e assume a: "JSON_parse s = Inl e \<and> lastDate w = getTodayString now \<and> checks w = allFalse"
  have run: "loadData numText now w = (Returned, w\<lparr>console := console w @ [e], isLoaded := True\<rparr>)
      \<or> loadData numText now w = (Returned, w\<lparr>lastDate := getTodayString now, isLoaded := True\<rparr>)"
  proof (cases "s = []")
    case True
    then show ?thesis using assms by (simp add: loadData_absent)
  next
    case False
    then show ?thesis using a assms by (simp add: loadData_unparsable)
  qed
  from run a show "checks (snd (loadData numText now w)) = allFalse" by auto
  from run a show "lastDate (snd (loadData numText now w)) = getTodayString now" by auto
next
  fix v d
  assume a: "JSON_parse s = Inr v \<and> getProp v (U ''date'') = Inr d \<and> d \<noteq> JStr (getTodayString now)"
  then have run: "loadData numText now w =
     (if full (localStorage w)
      then (Returned, w\<lparr>checks := allFalse, lastDate := getTodayString now,
                          console := console w @ [QuotaExceededError], isLoaded := True\<rparr>)
      else (Returned, w\<lparr>checks := allFalse, lastDate := getTodayString now, isLoaded := True,
                          localStorage := withItem storageKey
                            (JSON_stringify numText (StoredData (getTodayString now) allFalse))
                            (localStorage w)\<rparr>))"
    using assms by (simp add: loadData_stale)
  show "checks (snd (loadData numText now w)) = allFalse" by (simp add: run)
  show "lastDate (snd (loadData numText now w)) = getTodayString now" by (simp add: run)
  show "localStorage (snd (loadData numText now w)) =
          withItem storageKey (JSON_stringify numText (StoredData (getTodayString now) allFalse))
            (localStorage w)"
    if "\<not> full (localStorage w)"
    using that by (simp add: run)
qed

theorem malformed_snapshot_handling_witness:
  \<open>JSON_parse [] = Inl SyntaxError
   \<and> loadData plainNumText may2
        (loadedWorld (CheckState True False False) (U ''2024-05-01'') (storeHolding []))
      = (Returned, loadedWorld (CheckState True False False) (U ''2024-05-02'') (storeHolding []))
   \<and> JSON_parse (U ''not json'') = Inl SyntaxError
   \<and> loadData plainNumText may1 (initialWorld may1 (storeHolding (U ''not json'')))
      = (Returned,
         (loadedWorld (CheckState False False False) (U ''2024-05-01'') (storeHolding (U ''not json'')))
           \<lparr>console := [SyntaxError]\<rparr>)
   \<and> JSON_parse (U ''null'') = Inr JNull
   \<and> loadData plainNumText may1 (initialWorld may1 (storeHolding (U ''null'')))
      = (Returned,
         (loadedWorld (CheckState False False False) (U ''2024-05-01'') (storeHolding (U ''null'')))
           \<lparr>console := [TypeError]\<rparr>)
   \<and> JSON_parse (U ''{"checks":{}}'') = Inr (JObj [(U ''checks'', JObj [])])
   \<and> getProp (JObj [(U ''checks'', JObj [])]) (U ''date'') = Inr JUndefined
   \<and> checks (snd (loadData plainNumText may1
         (loadedWorld (CheckState True False False) (U ''2024-04-30'') (storeHolding (U ''{"checks":{}}'')))))
      = CheckState False False False
   \<and> lastDate (snd (loadData plainNumText may1
         (loadedWorld (CheckState True False False) (U ''2024-04-30'') (storeHolding (U ''{"checks":{}}'')))))
      = U ''2024-05-01''
   \<and> items (localStorage (snd (loadData plainNumText may1
         (loadedWorld (CheckState True False False) (U ''2024-04-30'') (storeHolding (U ''{"checks":{}}''))))))
        storageKey
      = Some (U ''{"date":"2024-05-01","checks":{"morning":false,"lunch":false,"dinner":false}}'')\<close>
proof -
  let ?e = "loadedWorld (CheckState True False False) (U ''2024-05-01'') (storeHolding [])"
  have ste: "available (localStorage ?e)" "items (localStorage ?e) storageKey = Some []"
    by simp_all
  from malformed_snapshot_handling [OF ste, of plainNumText may2]
  have e: "loadData plainNumText may2 ?e = (Returned, ?e\<lparr>lastDate := getTodayString may2, isLoaded := True\<rparr>)"
    by blast
  let ?w = "initialWorld may1 (storeHolding (U ''not json''))"
  have st: "available (localStorage ?w)" "items (localStorage ?w) storageKey = Some (U ''not json'')"
    by (simp_all add: initialWorld_def)
  have ne: "U ''not json'' \<noteq> [] \<and> JSON_parse (U ''not json'') = Inl SyntaxError"
    by (simp add: parse_not_json)
  from malformed_snapshot_handling [OF st, of plainNumText may1] ne
  have a: "loadData plainNumText may1 ?w = (Returned, ?w\<lparr>console := console ?w @ [SyntaxError], isLoaded := True\<rparr>)"
    by blast
  let ?n = "initialWorld may1 (storeHolding (U ''null''))"
  have stn: "available (localStorage ?n)" "items (localStorage ?n) storageKey = Some (U ''null'')"
    by (simp_all add: initialWorld_def)
  from malformed_snapshot_handling [OF stn, of plainNumText may1]
  have b: "loadData plainNumText may1 ?n = (Returned, ?n\<lparr>console := console ?n @ [TypeError], isLoaded := True\<rparr>)"
    using parse_null by blast
  let ?s = \<open>U ''{"checks":{}}''\<close>
  let ?c = "loadedWorld (CheckState True False False) (U ''2024-04-30'') (storeHolding ?s)"
  have stc: "available (localStorage ?c)" "items (localStorage ?c) storageKey = Some ?s"
    by simp_all
  have shape: "JSON_parse ?s = Inr (JObj [(U ''checks'', JObj [])])
      \<and> getProp (JObj [(U ''checks'', JObj [])]) (U ''date'') = Inr JUndefined
      \<and> JUndefined \<noteq> JStr (getTodayString may1)"
    by (simp add: parse_checks_only)
  from malformed_snapshot_handling [OF stc, of plainNumText may1] shape
  have c: "checks (snd (loadData plainNumText may1 ?c)) = allFalse
      \<and> lastDate (snd (loadData plainNumText may1 ?c)) = getTodayString may1
      \<and> (\<not> full (localStorage ?c) \<longrightarrow>
           localStorage (snd (loadData plainNumText may1 ?c)) =
             withItem storageKey (JSON_stringify plainNumText (StoredData (getTodayString may1) allFalse))
               (localStorage ?c))"
    by blast
  from e a b c show ?thesis
    by (simp add: parse_not_json parse_null parse_checks_only initialWorld_def loadedWorld_def
          today_may1 today_may2 allFalse_CheckState stringify_record_may1_all_false)
qed

text \<open>
  C6 (missing slots repaired), as stated: a same-day record whose checks lack a slot is
  loaded with that slot set to false. It is not: the stored checks object becomes the
  state as it is. With \<open>{"date":"2024-05-01","checks":{"morning":true}}\<close> stored, on
  2024-05-01, the state has no \<open>lunch\<close> afterwards (reading it gives \<open>undefined\<close>) and is
  not a \<open>CheckState\<close>.
\<close>

theorem missing_slot_repaired_counterexample:
  \<open>loadData plainNumText may1
      (initialWorld may1 (storeHolding (U ''{"date":"2024-05-01","checks":{"morning":true}}'')))
    = (Returned,
       loadedWorld (JObj [(U ''morning'', JBool True)]) (U ''2024-05-01'')
         (storeHolding (U ''{"date":"2024-05-01","checks":{"morning":true}}'')))
   \<and> getProp (JObj [(U ''morning'', JBool True)]) (slotKey Lunch) = Inr JUndefined
   \<and> \<not> isCheckState (JObj [(U ''morning'', JBool True)])\<close>
proof -
  let ?s = \<open>U ''{"date":"2024-05-01","checks":{"morning":true}}''\<close>
  have "loadData plainNumText may1 (initialWorld may1 (storeHolding ?s)) =
      (Returned, (initialWorld may1 (storeHolding ?s))
         \<lparr>checks := JObj [(U ''morning'', JBool True)], lastDate := getTodayString may1, isLoaded := True\<rparr>)"
    by (rule loadData_same_day [where s = ?s
          and v = "StoredData (U ''2024-05-01'') (JObj [(U ''morning'', JBool True)])"])
       (simp_all add: initialWorld_def parse_record_may1_morning_only today_may1)
  then show ?thesis
    by (simp add: initialWorld_def loadedWorld_def today_may1)
qed

text \<open>
  C6, amended: for a record that parses and whose date is today's, \<open>loadData\<close> takes the
  stored checks object as the in-memory checks without any repair: a slot the object has
  keeps its stored value, and a slot it lacks stays absent (reading it gives
  \<open>undefined\<close>).
\<close>

theorem same_day_record_loaded_verbatim:
  assumes "available (localStorage w)"
    and "items (localStorage w) storageKey = Some s"
    and "JSON_parse s = Inr v"
    and "getProp v (U ''date'') = Inr (JStr (getTodayString now))"
    and "getProp v (U ''checks'') = Inr (JObj ps)"
  shows "loadData numText now w =
           (Returned, w\<lparr>checks := JObj ps, lastDate := getTodayString now, isLoaded := True\<rparr>)
       \<and> (\<forall>x. getProp (checks (snd (loadData numText now w))) (slotKey x) =
                (case map_of ps (slotKey x) of Some b \<Rightarrow> Inr b | None \<Rightarrow> Inr JUndefined))"
  using loadData_same_day [OF assms, of numText] by simp

theorem same_day_record_loaded_verbatim_witness:
  \<open>JSON_parse (U ''{"date":"2024-05-01","checks":{"morning":true}}'')
     = Inr (StoredData (U ''2024-05-01'') (JObj [(U ''morning'', JBool True)]))
   \<and> checks (snd (loadData plainNumText may1
        (initialWorld may1 (storeHolding (U ''{"date":"2024-05-01","checks":{"morning":true}}'')))))
      = JObj [(U ''morning'', JBool True)]
   \<and> getProp (checks (snd (loadData plainNumText may1
        (initialWorld may1 (storeHolding (U ''{"date":"2024-05-01","checks":{"morning":true}}''))))))
        (slotKey Dinner) = Inr JUndefined\<close>
proof -
  let ?s = \<open>U ''{"date":"2024-05-01","checks":{"morning":true}}''\<close>
  let ?w = "initialWorld may1 (storeHolding ?s)"
  have st: "available (localStorage ?w)" "items (localStorage ?w) storageKey = Some ?s"
    by (simp_all add: initialWorld_def)
  have date: "getProp (StoredData (U ''2024-05-01'') (JObj [(U ''morning'', JBool True)])) (U ''date'')
      = Inr (JStr (getTodayString may1))"
    by (simp add: today_may1)
  from same_day_record_loaded_verbatim
    [OF st parse_record_may1_morning_only date getProp_StoredData(2), of plainNumText]
  have "checks (snd (loadData plainNumText may1 ?w)) = JObj [(U ''morning'', JBool True)]"
    and "getProp (checks (snd (loadData plainNumText may1 ?w))) (slotKey Dinner) = Inr JUndefined"
    by simp_all
  then show ?thesis by (simp add: parse_record_may1_morning_only)
qed

text \<open>
  C7 (toggle flips exactly one slot). In a same-day state (today's date is the current
  date) whose checks are a well-formed \<open>CheckState\<close>, \<open>toggleCheck\<close> of a slot yields a
  well-formed \<open>CheckState\<close> in which that slot is negated and the other two are as they
  were; the current date stays, and the record \<open>{date: today, checks: newChecks}\<close> is
  stored under the key. (When the store refuses, the in-memory state is the same and the
  store's exception leaves the function.)
\<close>

theorem toggle_flips_one_slot:
  assumes "getTodayString now = lastDate w" and "isCheckState (checks w)"
  shows "\<exists>newChecks.
           isCheckState newChecks
         \<and> (\<forall>x. checked newChecks x = (if x = slot then \<not> checked (checks w) x else checked (checks w) x))
         \<and> toggleCheck numText slot now w =
             (if \<not> available (localStorage w) then (Threw SecurityError, w\<lparr>checks := newChecks\<rparr>)
              else if full (localStorage w) then (Threw QuotaExceededError, w\<lparr>checks := newChecks\<rparr>)
              else (Returned, w\<lparr>checks := newChecks,
                       localStorage := withItem storageKey
                         (JSON_stringify numText (StoredData (getTodayString now) newChecks))
                         (localStorage w)\<rparr>))"
proof -
  define cur where "cur = JBool (checked (checks w) slot)"
  define newChecks where
    "newChecks = JObj (putProp (slotKey slot) (JBool (\<not> truthy cur)) (spread (checks w)))"
  have cur: "getProp (checks w) (slotKey slot) = Inr cur"
    using isCheckState_getProp [OF assms(2)] by (simp add: cur_def)
  have wf: "isCheckState newChecks"
    unfolding newChecks_def by (rule isCheckState_toggled(1) [OF assms(2)])
  have flip: "checked newChecks x = (if x = slot then \<not> checked (checks w) x else checked (checks w) x)" for x
    unfolding newChecks_def using isCheckState_toggled(2) [OF assms(2)] by (simp add: cur_def)
  from toggleCheck_same_day [OF assms(1) cur newChecks_def, of numText] wf flip
  show ?thesis using assms(1) by auto
qed

theorem toggle_flips_one_slot_witness:
  \<open>getTodayString may1 = lastDate (loadedWorld (CheckState True False False) (U ''2024-05-01'') emptyStore)
   \<and> isCheckState (CheckState True False False)
   \<and> isCheckState (CheckState True True False)
   \<and> toggleCheck plainNumText Lunch may1
        (loadedWorld (CheckState True False False) (U ''2024-05-01'') emptyStore)
      = (Returned,
         loadedWorld (CheckState True True False) (U ''2024-05-01'')
           (withItem storageKey
              (U ''{"date":"2024-05-01","checks":{"morning":true,"lunch":true,"dinner":false}}'')
              emptyStore))\<close>
proof -
  let ?w = "loadedWorld (CheckState True False False) (U ''2024-05-01'') emptyStore"
  have day: "getTodayString may1 = lastDate ?w" by (simp add: today_may1)
  have wf: "isCheckState (checks ?w)" by (simp add: CheckState_def)
  have run: "toggleCheck plainNumText Lunch may1 ?w =
      (Returned, loadedWorld (CheckState True True False) (U ''2024-05-01'')
         (withItem storageKey
            (JSON_stringify plainNumText (StoredData (U ''2024-05-01'') (CheckState True True False)))
            emptyStore))"
    by (simp add: toggle_example)
  from toggle_flips_one_slot [OF day wf, of Lunch plainNumText]
  obtain c where "isCheckState c \<and>
      (\<forall>x. checked c x = (if x = Lunch then \<not> checked (checks ?w) x else checked (checks ?w) x)) \<and>
      toggleCheck plainNumText Lunch may1 ?w =
        (if \<not> available (localStorage ?w) then (Threw SecurityError, ?w\<lparr>checks := c\<rparr>)
         else if full (localStorage ?w) then (Threw QuotaExceededError, ?w\<lparr>checks := c\<rparr>)
         else (Returned, ?w\<lparr>checks := c,
                 localStorage := withItem storageKey
                   (JSON_stringify plainNumText (StoredData (getTodayString may1) c))
                   (localStorage ?w)\<rparr>))" ..
  then have c: "isCheckState c" and "checks (snd (toggleCheck plainNumText Lunch may1 ?w)) = c"
    by simp_all
  then have "isCheckState (CheckState True True False)" by (simp add: run)
  with day wf run show ?thesis by (simp add: stringify_record_may1_lunch)
qed

text \<open>
  C8 (idempotent reconcile, same day). The store holds a record whose date is today's,
  with checks \<open>S\<close>. However often \<open>loadData\<close> is called at times of that day, each call
  returns normally and the state after them has the checks \<open>S\<close> and today as current
  date; the store, the log and the record are untouched. On the state so loaded further
  calls change nothing at all.
\<close>

theorem reconcile_same_day_idempotent:
  assumes "available (localStorage w)"
    and "items (localStorage w) storageKey = Some s"
    and "JSON_parse s = Inr v"
    and "getProp v (U ''date'') = Inr (JStr today)" and "getProp v (U ''checks'') = Inr S"
    and "\<forall>t \<in> set ts. getTodayString t = today"
  shows "(ts \<noteq> [] \<longrightarrow>
            loadDataSeq numText ts w =
              (replicate (length ts) Returned, w\<lparr>checks := S, lastDate := today, isLoaded := True\<rparr>))
       \<and> loadDataSeq numText ts (w\<lparr>checks := S, lastDate := today, isLoaded := True\<rparr>) =
            (replicate (length ts) Returned, w\<lparr>checks := S, lastDate := today, isLoaded := True\<rparr>)"
proof -
  have seq: "loadDataSeq numText ts w0 =
      (replicate (length ts) Returned,
       if ts = [] then w0 else w0\<lparr>checks := S, lastDate := today, isLoaded := True\<rparr>)"
    if "localStorage w0 = localStorage w" for w0
    using that assms(6)
  proof (induction ts arbitrary: w0)
    case Nil
    show ?case by simp
  next
    case (Cons t ts)
    let ?w1 = "w0\<lparr>checks := S, lastDate := today, isLoaded := True\<rparr>"
    from Cons.prems have day: "getTodayString t = today" by simp
    have step: "loadData numText t w0 = (Returned, ?w1)"
      using loadData_same_day [of w0 s v t S numText] assms(1-5) Cons.prems(1) day by simp
    have "localStorage ?w1 = localStorage w" using Cons.prems(1) by simp
    from Cons.IH [OF this] Cons.prems(2)
    have "loadDataSeq numText ts ?w1 = (replicate (length ts) Returned, ?w1)"
      by (cases "ts = []") simp_all
    with step show ?case by simp
  qed
  show ?thesis
    using seq [of w] seq [of "w\<lparr>checks := S, lastDate := today, isLoaded := True\<rparr>"]
    by (cases "ts = []") simp_all
qed

theorem reconcile_same_day_idempotent_witness:
  \<open>JSON_parse (U ''{"date":"2024-05-01","checks":{"morning":true,"lunch":false,"dinner":false}}'')
     = Inr (StoredData (U ''2024-05-01'') (CheckState True False False))
   \<and> getTodayString may1 = U ''2024-05-01''
   \<and> loadDataSeq plainNumText [may1, may1, may1]
        (initialWorld may1
           (storeHolding (U ''{"date":"2024-05-01","checks":{"morning":true,"lunch":false,"dinner":false}}'')))
      = ([Returned, Returned, Returned],
         loadedWorld (CheckState True False False) (U ''2024-05-01'')
           (storeHolding (U ''{"date":"2024-05-01","checks":{"morning":true,"lunch":false,"dinner":false}}'')))\<close>
proof -
  let ?s = \<open>U ''{"date":"2024-05-01","checks":{"morning":true,"lunch":false,"dinner":false}}''\<close>
  let ?w = "initialWorld may1 (storeHolding ?s)"
  have st: "available (localStorage ?w)" "items (localStorage ?w) storageKey = Some ?s"
    by (simp_all add: initialWorld_def)
  have days: "\<forall>t \<in> set [may1, may1, may1]. getTodayString t = U ''2024-05-01''"
    by (simp add: today_may1)
  from reconcile_same_day_idempotent
    [OF st parse_record_may1_morning getProp_StoredData days, of plainNumText]
  show ?thesis
    by (simp add: parse_record_may1_morning today_may1 initialWorld_def loadedWorld_def)
qed

text \<open>
  C9 (no snapshot), as stated: whenever the store holds no snapshot, \<open>loadData\<close> yields the
  all-false state. It does not: the branch only sets the current date. Over a store that
  holds nothing and refuses every write, a first load and a toggle of morning on
  2024-05-01 leave morning set in memory and the store empty; the next \<open>loadData\<close> finds
  no snapshot and leaves morning set. (A store cleared while the page is open gives the
  same state.)
\<close>

theorem no_snapshot_all_false_counterexample:
  "session plainNumText [Reconcile may1, Toggle Morning may1] (initialWorld may1 fullStore)
     = loadedWorld (CheckState True False False) (U ''2024-05-01'') fullStore
   \<and> available fullStore
   \<and> items fullStore storageKey = None
   \<and> loadData plainNumText may1 (loadedWorld (CheckState True False False) (U ''2024-05-01'') fullStore)
       = (Returned, loadedWorld (CheckState True False False) (U ''2024-05-01'') fullStore)
   \<and> CheckState True False False \<noteq> allFalse"
proof -
  have "snd (loadData plainNumText may1 (initialWorld may1 fullStore))
      = loadedWorld (CheckState False False False) (U ''2024-05-01'') fullStore"
    by (simp add: loadData_absent initialWorld_def loadedWorld_def today_may1 allFalse_CheckState)
  moreover have "snd (toggleCheck plainNumText Morning may1
        (loadedWorld (CheckState False False False) (U ''2024-05-01'') fullStore))
      = loadedWorld (CheckState True False False) (U ''2024-05-01'') fullStore"
    by (simp add: toggleCheck_def today_may1 setItem_def CheckState_def putProp_def Let_def loadedWorld_def)
  moreover have "loadData plainNumText may1 (loadedWorld (CheckState True False False) (U ''2024-05-01'') fullStore)
       = (Returned, loadedWorld (CheckState True False False) (U ''2024-05-01'') fullStore)"
    by (simp add: loadData_absent today_may1 loadedWorld_def)
  ultimately show ?thesis by (simp add: allFalse_CheckState)
qed

text \<open>
  C9, amended: when the store holds no snapshot, \<open>loadData\<close> returns normally, sets the
  current date to today, leaves the in-memory checks as they are and performs no write
  (the store and its history are unchanged). The checks it leaves are all-false on the
  state of the first render, and on every state reached from it by calls of \<open>loadData\<close>
  and \<open>toggleCheck\<close> over a store that can be read and takes every write: there the
  result is the all-false state for today.
\<close>

theorem no_snapshot_keeps_checks:
  assumes "available (localStorage w)" and "items (localStorage w) storageKey = None"
  shows "loadData numText now w = (Returned, w\<lparr>lastDate := getTodayString now, isLoaded := True\<rparr>)
       \<and> (\<forall>es t st. \<not> full st \<and> w = session numText es (initialWorld t st) \<longrightarrow>
             loadData numText now w =
               (Returned, w\<lparr>checks := allFalse, lastDate := getTodayString now, isLoaded := True\<rparr>))"
proof (intro conjI allI impI)
  show run: "loadData numText now w = (Returned, w\<lparr>lastDate := getTodayString now, isLoaded := True\<rparr>)"
    using assms by (simp add: loadData_absent)
  fix es t st
  assume a: "\<not> full st \<and> w = session numText es (initialWorld t st)"
  have flags: "available (localStorage (session numText es w0)) = available (localStorage w0)" for w0
  proof (induction es arbitrary: w0)
    case Nil
    show ?case by simp
  next
    case (Cons e es)
    have "available (localStorage (snd (perform numText e w0))) = available (localStorage w0)"
    proof (cases e)
      case (Reconcile u)
      with loadData_storage [of numText u w0] show ?thesis by auto
    next
      case (Toggle x u)
      show ?thesis
      proof (cases "getTodayString u = lastDate w0")
        case False
        from toggleCheck_stale [OF this, of numText x] Toggle show ?thesis by simp
      next
        case True
        show ?thesis
        proof (cases "getProp (checks w0) (slotKey x)")
          case (Inl e)
          with True Toggle show ?thesis by (simp add: toggleCheck_def)
        next
          case (Inr cur)
          from toggleCheck_same_day [OF True Inr refl, of numText] Toggle show ?thesis by simp
        qed
      qed
    qed
    with Cons.IH [of "snd (perform numText e w0)"] show ?case by simp
  qed
  have "available st" using assms(1) a flags [of "initialWorld t st"] by (simp add: initialWorld_def)
  with a have "emptyMeansUnchecked (initialWorld t st)" by (simp add: initialWorld_emptyMeansUnchecked)
  then have "emptyMeansUnchecked w" using a by (simp add: session_emptyMeansUnchecked)
  then have "checks w = allFalse" using assms(2) by (simp add: emptyMeansUnchecked_def)
  then have "w\<lparr>checks := allFalse\<rparr> = w" by simp
  then show "loadData numText now w =
      (Returned, w\<lparr>checks := allFalse, lastDate := getTodayString now, isLoaded := True\<rparr>)"
    using run by simp
qed

theorem no_snapshot_keeps_checks_witness:
  "available (localStorage (session plainNumText [Reconcile may1] (initialWorld may1 emptyStore)))
   \<and> items (localStorage (session plainNumText [Reconcile may1] (initialWorld may1 emptyStore))) storageKey = None
   \<and> session plainNumText [Reconcile may1] (initialWorld may1 emptyStore)
       = loadedWorld (CheckState False False False) (U ''2024-05-01'') emptyStore
   \<and> loadData plainNumText may2 (loadedWorld (CheckState False False False) (U ''2024-05-01'') emptyStore)
       = (Returned, loadedWorld (CheckState False False False) (U ''2024-05-02'') emptyStore)"
proof -
  let ?w = "session plainNumText [Reconcile may1] (initialWorld may1 emptyStore)"
  have w: "?w = loadedWorld (CheckState False False False) (U ''2024-05-01'') emptyStore"
    by (simp add: loadData_absent initialWorld_def loadedWorld_def today_may1 allFalse_CheckState)
  have st: "available (localStorage ?w)" "items (localStorage ?w) storageKey = None"
    by (simp_all only: w) simp_all
  from no_snapshot_keeps_checks [OF st, of plainNumText may2]
  have "\<forall>es t st. \<not> full st \<and> ?w = session plainNumText es (initialWorld t st) \<longrightarrow>
      loadData plainNumText may2 ?w =
        (Returned, ?w\<lparr>checks := allFalse, lastDate := getTodayString may2, isLoaded := True\<rparr>)"
    by (rule conjunct2)
  then have "\<not> full emptyStore \<and> ?w = session plainNumText [Reconcile may1] (initialWorld may1 emptyStore) \<longrightarrow>
      loadData plainNumText may2 ?w =
        (Returned, ?w\<lparr>checks := allFalse, lastDate := getTodayString may2, isLoaded := True\<rparr>)"
    by blast
  then have "loadData plainNumText may2 ?w =
      (Returned, ?w\<lparr>checks := allFalse, lastDate := getTodayString may2, isLoaded := True\<rparr>)"
    by (simp del: session.simps)
  then have "loadData plainNumText may2 (loadedWorld (CheckState False False False) (U ''2024-05-01'') emptyStore)
       = (Returned, loadedWorld (CheckState False False False) (U ''2024-05-02'') emptyStore)"
    by (simp only: w) (simp add: loadedWorld_def today_may2 allFalse_CheckState)
  with st w show ?thesis by (simp del: session.simps)
qed

text \<open>
  C10 (shape of what is written), as stated: every value written has a checks object
  with exactly the three boolean fields. The same-day branch of \<open>toggleCheck\<close> writes the
  in-memory checks with the one slot set, whatever they were. With
  \<open>{"date":"2024-05-01","checks":{"morning":true}}\<close> stored, a load and a toggle of lunch on
  2024-05-01 write a record whose checks have no \<open>dinner\<close>.
\<close>

theorem written_record_shape_counterexample:
  \<open>written (localStorage (snd (toggleCheck plainNumText Lunch may1
      (snd (loadData plainNumText may1
         (initialWorld may1 (storeHolding (U ''{"date":"2024-05-01","checks":{"morning":true}}''))))))))
    = [(storageKey, U ''{"date":"2024-05-01","checks":{"morning":true,"lunch":true}}'')]
   \<and> JSON_parse (U ''{"date":"2024-05-01","checks":{"morning":true,"lunch":true}}'')
    = Inr (StoredData (U ''2024-05-01'') (JObj [(U ''morning'', JBool True), (U ''lunch'', JBool True)]))
   \<and> getProp (JObj [(U ''morning'', JBool True), (U ''lunch'', JBool True)]) (slotKey Dinner) = Inr JUndefined
   \<and> \<not> isCheckState (JObj [(U ''morning'', JBool True), (U ''lunch'', JBool True)])\<close>
proof -
  let ?s = \<open>U ''{"date":"2024-05-01","checks":{"morning":true}}''\<close>
  let ?w1 = "loadedWorld (JObj [(U ''morning'', JBool True)]) (U ''2024-05-01'') (storeHolding ?s)"
  have "loadData plainNumText may1 (initialWorld may1 (storeHolding ?s)) =
      (Returned, (initialWorld may1 (storeHolding ?s))
         \<lparr>checks := JObj [(U ''morning'', JBool True)], lastDate := getTodayString may1, isLoaded := True\<rparr>)"
    by (rule loadData_same_day [where s = ?s
          and v = "StoredData (U ''2024-05-01'') (JObj [(U ''morning'', JBool True)])"])
       (simp_all add: initialWorld_def parse_record_may1_morning_only today_may1)
  then have load: "snd (loadData plainNumText may1 (initialWorld may1 (storeHolding ?s))) = ?w1"
    by (simp add: initialWorld_def loadedWorld_def today_may1)
  have "toggleCheck plainNumText Lunch may1 ?w1 =
      (Returned, ?w1\<lparr>checks := JObj [(U ''morning'', JBool True), (U ''lunch'', JBool True)],
                      localStorage := withItem storageKey
                        (JSON_stringify plainNumText (StoredData (lastDate ?w1)
                           (JObj [(U ''morning'', JBool True), (U ''lunch'', JBool True)])))
                        (localStorage ?w1)\<rparr>)"
    by (rule toggleCheck_same_day [where cur = JUndefined, THEN trans])
       (simp_all add: today_may1 putProp_def arrayIndex_def U_def CH_def isDigit_def)
  then have "written (localStorage (snd (toggleCheck plainNumText Lunch may1 ?w1))) =
      [(storageKey, U ''{\"date\":\"2024-05-01\",\"checks\":{\"morning\":true,\"lunch\":true}}'')]"
    by (simp add: withItem_def stringify_record_may1_two_slots)
  then show ?thesis
    by (simp add: load parse_record_may1_two_slots two_slots_not_CheckState del: isCheckState.simps)
qed

text \<open>
  C10, amended: every value an operation writes under the key is the serialized record
  \<open>{date: today, checks: c}\<close>, where today is the date string of the operation's time. In
  the reset branches of \<open>loadData\<close> and \<open>toggleCheck\<close>, \<open>c\<close> is all-false; in the same-day
  branch of \<open>toggleCheck\<close>, \<open>c\<close> is the new in-memory check state, whatever the state
  before, and it has exactly the three boolean fields whenever the check state before
  the toggle had them. An operation writes at most once, and nothing else of the store
  changes.
\<close>

theorem written_values_are_today_records:
  "(localStorage (snd (loadData numText now w)) = localStorage w
      \<or> localStorage (snd (loadData numText now w)) =
          withItem storageKey (JSON_stringify numText (StoredData (getTodayString now) allFalse))
            (localStorage w))
   \<and> isCheckState allFalse
   \<and> (getTodayString now \<noteq> lastDate w \<longrightarrow>
        checks (snd (toggleCheck numText slot now w)) = allFalse
        \<and> (localStorage (snd (toggleCheck numText slot now w)) = localStorage w
            \<or> localStorage (snd (toggleCheck numText slot now w)) =
                withItem storageKey (JSON_stringify numText (StoredData (getTodayString now) allFalse))
                  (localStorage w)))
   \<and> (getTodayString now = lastDate w \<longrightarrow>
        (localStorage (snd (toggleCheck numText slot now w)) = localStorage w
            \<or> localStorage (snd (toggleCheck numText slot now w)) =
                withItem storageKey
                  (JSON_stringify numText
                     (StoredData (getTodayString now) (checks (snd (toggleCheck numText slot now w)))))
                  (localStorage w))
        \<and> (isCheckState (checks w) \<longrightarrow> isCheckState (checks (snd (toggleCheck numText slot now w)))))"
proof (intro conjI impI)
  show "localStorage (snd (loadData numText now w)) = localStorage w
      \<or> localStorage (snd (loadData numText now w)) =
          withItem storageKey (JSON_stringify numText (StoredData (getTodayString now) allFalse))
            (localStorage w)"
    by (rule loadData_storage)
next
  show "isCheckState allFalse" by (simp add: allFalse_CheckState)
next
  assume stale: "getTodayString now \<noteq> lastDate w"
  note run = toggleCheck_stale [OF stale, of numText slot]
  show "checks (snd (toggleCheck numText slot now w)) = allFalse" by (simp add: run)
  show "localStorage (snd (toggleCheck numText slot now w)) = localStorage w
            \<or> localStorage (snd (toggleCheck numText slot now w)) =
                withItem storageKey (JSON_stringify numText (StoredData (getTodayString now) allFalse))
                  (localStorage w)"
    by (simp add: run)
next
  assume same: "getTodayString now = lastDate w"
  show "localStorage (snd (toggleCheck numText slot now w)) = localStorage w
            \<or> localStorage (snd (toggleCheck numText slot now w)) =
                withItem storageKey
                  (JSON_stringify numText
                     (StoredData (getTodayString now) (checks (snd (toggleCheck numText slot now w)))))
                  (localStorage w)"
  proof (cases "getProp (checks w) (slotKey slot)")
    case (Inl e)
    with same show ?thesis by (simp add: toggleCheck_def)
  next
    case (Inr cur)
    from toggleCheck_same_day [OF same Inr refl, of numText] show ?thesis by (simp add: same)
  qed
  assume wf: "isCheckState (checks w)"
  from toggleCheck_same_day [OF same isCheckState_getProp [OF wf] refl, of numText]
    isCheckState_toggled(1) [OF wf, of slot]
  show "isCheckState (checks (snd (toggleCheck numText slot now w)))" by simp
qed

theorem written_values_are_today_records_witness:
  \<open>getTodayString may2 \<noteq> lastDate (loadedWorld (CheckState True True True) (U ''2024-05-01'') emptyStore)
   \<and> checks (snd (toggleCheck plainNumText Morning may2
        (loadedWorld (CheckState True True True) (U ''2024-05-01'') emptyStore)))
      = CheckState False False False
   \<and> written (localStorage (snd (toggleCheck plainNumText Morning may2
        (loadedWorld (CheckState True True True) (U ''2024-05-01'') emptyStore))))
      = [(storageKey, U ''{"date":"2024-05-02","checks":{"morning":false,"lunch":false,"dinner":false}}'')]
   \<and> getTodayString may1 = lastDate (loadedWorld (CheckState True False False) (U ''2024-05-01'') emptyStore)
   \<and> isCheckState (CheckState True False False)
   \<and> written (localStorage (snd (toggleCheck plainNumText Lunch may1
        (loadedWorld (CheckState True False False) (U ''2024-05-01'') emptyStore))))
      = [(storageKey, U ''{"date":"2024-05-01","checks":{"morning":true,"lunch":true,"dinner":false}}'')]
   \<and> JSON_parse (U ''{"date":"2024-05-01","checks":{"morning":true,"lunch":true,"dinner":false}}'')
      = Inr (StoredData (getTodayString may1) (CheckState True True False))
   \<and> isCheckState (CheckState True True False)
   \<and> written (localStorage (snd (toggleCheck plainNumText Lunch may1
        (loadedWorld (JObj [(U ''morning'', JBool True)]) (U ''2024-05-01'') emptyStore))))
      = [(storageKey, U ''{"date":"2024-05-01","checks":{"morning":true,"lunch":true}}'')]
   \<and> checks (snd (toggleCheck plainNumText Lunch may1
        (loadedWorld (JObj [(U ''morning'', JBool True)]) (U ''2024-05-01'') emptyStore)))
      = JObj [(U ''morning'', JBool True), (U ''lunch'', JBool True)]\<close>
proof -
  let ?a = "loadedWorld (CheckState True True True) (U ''2024-05-01'') emptyStore"
  let ?b = "loadedWorld (CheckState True False False) (U ''2024-05-01'') emptyStore"
  let ?c = "loadedWorld (JObj [(U ''morning'', JBool True)]) (U ''2024-05-01'') emptyStore"
  have stale: "getTodayString may2 \<noteq> lastDate ?a" by (simp add: today_may2)
  have same_b: "getTodayString may1 = lastDate ?b" by (simp add: today_may1)
  have same_c: "getTodayString may1 = lastDate ?c" by (simp add: today_may1)
  have wf: "isCheckState (checks ?b)" by simp
  from written_values_are_today_records [of plainNumText may2 ?a Morning] stale
  have a: "checks (snd (toggleCheck plainNumText Morning may2 ?a)) = allFalse"
    and a': "localStorage (snd (toggleCheck plainNumText Morning may2 ?a)) = localStorage ?a
       \<or> localStorage (snd (toggleCheck plainNumText Morning may2 ?a)) =
          withItem storageKey (JSON_stringify plainNumText (StoredData (getTodayString may2) allFalse))
            (localStorage ?a)"
    by blast+
  from written_values_are_today_records [of plainNumText may1 ?b Lunch] same_b wf
  have b: "isCheckState (checks (snd (toggleCheck plainNumText Lunch may1 ?b)))"
    and b': "localStorage (snd (toggleCheck plainNumText Lunch may1 ?b)) = localStorage ?b
       \<or> localStorage (snd (toggleCheck plainNumText Lunch may1 ?b)) =
          withItem storageKey
            (JSON_stringify plainNumText
               (StoredData (getTodayString may1) (checks (snd (toggleCheck plainNumText Lunch may1 ?b)))))
            (localStorage ?b)"
    by blast+
  from written_values_are_today_records [of plainNumText may1 ?c Lunch] same_c
  have c': "localStorage (snd (toggleCheck plainNumText Lunch may1 ?c)) = localStorage ?c
       \<or> localStorage (snd (toggleCheck plainNumText Lunch may1 ?c)) =
          withItem storageKey
            (JSON_stringify plainNumText
               (StoredData (getTodayString may1) (checks (snd (toggleCheck plainNumText Lunch may1 ?c)))))
            (localStorage ?c)"
    by blast
  from stale same_b a a' b b' c' show ?thesis
    by (simp add: toggle_example toggle_example_stale toggle_example_missing_slots today_may1 today_may2
          allFalse_CheckState stringify_record_may1_lunch stringify_record_may2_all_false
          stringify_record_may1_two_slots parse_record_may1_lunch)
qed

end
